theory Spec2Isabelle
  imports Complex_Main
begin

section \<open>Conventions of the embedding\<close>

text \<open>
  The library is TypeScript.  A JavaScript \<open>number\<close> is modelled as a \<open>real\<close>: rounding
  of IEEE doubles is not modelled, and a value that may be \<open>NaN\<close> where the code tests for
  it is a \<open>real option\<close> with \<open>None\<close> for \<open>NaN\<close>.  A \<open>Date\<close> is its time value
  \<open>getTime()\<close>, milliseconds since the epoch, with \<open>None\<close> for an Invalid Date.  The
  constructor \<open>new Date(x)\<close> on a number clips \<open>x\<close> to an integer by truncation towards
  zero.  The date of a calculation is a valid Date and is passed as its time value.
\<close>

type_synonym Date = "int option"

definition newDate :: "real \<Rightarrow> Date" where
  "newDate x = Some (if 0 \<le> x then \<lfloor>x\<rfloor> else \<lceil>x\<rceil>)"

subsection \<open>utils/time.ts\<close>

text \<open>\<open>addMinutes(date, minutes) = new Date(date.getTime() + minutes * 60 * 1000)\<close>\<close>

definition addMinutes :: "Date \<Rightarrow> real \<Rightarrow> Date" where
  "addMinutes date minutes =
     (case date of None \<Rightarrow> None | Some t \<Rightarrow> newDate (of_int t + minutes * 60 * 1000))"

text \<open>\<open>addSeconds(date, seconds) = new Date(date.getTime() + seconds * 1000)\<close>\<close>

definition addSeconds :: "Date \<Rightarrow> real \<Rightarrow> Date" where
  "addSeconds date seconds =
     (case date of None \<Rightarrow> None | Some t \<Rightarrow> newDate (of_int t + seconds * 1000))"

text \<open>\<open>date.getUTCSeconds()\<close>: the seconds within the minute of a valid time value.\<close>

definition getUTCSeconds :: "int \<Rightarrow> int" where
  "getUTCSeconds t = (t div 1000) mod 60"

datatype RoundingMode = Nearest | Up | NoRounding

definition roundedMinute :: "Date \<Rightarrow> RoundingMode \<Rightarrow> Date" where
  "roundedMinute date rounding =
     (case date of None \<Rightarrow> None
      | Some t \<Rightarrow>
         (let seconds = getUTCSeconds t;
              offset = (case rounding of
                          Nearest \<Rightarrow> (if seconds \<ge> 30 then 60 - seconds else -1 * seconds)
                        | Up \<Rightarrow> (if seconds > 0 then 60 - seconds else 0)
                        | NoRounding \<Rightarrow> 0)
          in addSeconds date (of_int offset)))"

text \<open>\<open>convertToTimezone\<close> returns its argument ("prayer times should be returned in UTC").\<close>

definition convertToTimezone :: "Date \<Rightarrow> string \<Rightarrow> Date" where
  "convertToTimezone date timezone = date"

subsection \<open>types\<close>

record PrayerTimes =
  fajr :: Date
  sunrise :: Date
  dhuhr :: Date
  asr :: Date
  sunset :: Date
  maghrib :: Date
  isha :: Date

text \<open>
  \<open>PrayerName\<close> is the key type of an adjustments object
  (\<open>Partial<Record<PrayerName, number>>\<close>); every such key is a field of the record, so
  the test \<open>prayer in adjustedTimes\<close> of the code holds for each of them.  Property
  access by name is \<open>getField\<close>, assignment is \<open>setField\<close>.
\<close>

datatype PrayerName = Fajr | Sunrise | Dhuhr | Asr | Maghrib | Isha

fun getField :: "PrayerName \<Rightarrow> PrayerTimes \<Rightarrow> Date" where
  "getField Fajr tms = fajr tms"
| "getField Sunrise tms = sunrise tms"
| "getField Dhuhr tms = dhuhr tms"
| "getField Asr tms = asr tms"
| "getField Maghrib tms = maghrib tms"
| "getField Isha tms = isha tms"

fun setField :: "PrayerName \<Rightarrow> Date \<Rightarrow> PrayerTimes \<Rightarrow> PrayerTimes" where
  "setField Fajr v tms = tms\<lparr>fajr := v\<rparr>"
| "setField Sunrise v tms = tms\<lparr>sunrise := v\<rparr>"
| "setField Dhuhr v tms = tms\<lparr>dhuhr := v\<rparr>"
| "setField Asr v tms = tms\<lparr>asr := v\<rparr>"
| "setField Maghrib v tms = tms\<lparr>maghrib := v\<rparr>"
| "setField Isha v tms = tms\<lparr>isha := v\<rparr>"

record Coordinates =
  latitude :: real
  longitude :: real

datatype AsrSchool = StandardAsr | Hanafi

datatype MidnightMode = StandardMidnight | JafariMidnight

datatype HighLatitudeRule = NightMiddle | AngleBased | OneSeventh | NoRule

datatype Shafaq = General | Ahmer | Abyad

datatype MethodCode =
    ISNA | MWL | Egypt | UmmAlQura | Qatar | Dubai | JAKIM | JAKIMKN | Kemenag | Singapore
  | France12 | France15 | France18 | Turkey | Russia | Moonsighting | Tehran | Jafari
  | Karachi | Custom

text \<open>
  An \<open>isha\<close> or \<open>maghrib\<close> parameter is a number of degrees or a string such as
  \<open>"90 min"\<close>; \<open>parseAngleOrInterval\<close> turns it into a tagged value.  The model holds
  the parameter in its parsed form.
\<close>

datatype AngleOrInterval = Angle real | Interval real

record MethodParams =
  mp_fajr :: real
  mp_isha :: AngleOrInterval
  mp_maghrib :: "AngleOrInterval option"
  mp_midnight :: MidnightMode
  mp_shafaq :: "Shafaq option"
  mp_adjustments :: "(PrayerName \<Rightarrow> real option) option"

text \<open>
  Texts.  A message of the code is a template literal; the model keeps its literal parts
  and its interpolated numbers apart, and \<open>includes\<close> looks for a marker in the literal
  parts (no marker of the code contains a digit, a sign or a point).
\<close>

datatype part = Lit string | Num real

type_synonym message = "part list"

fun startsWith :: "string \<Rightarrow> string \<Rightarrow> bool" where
  "startsWith s [] = True"
| "startsWith [] (c # sub) = False"
| "startsWith (x # s) (c # sub) = (x = c \<and> startsWith s sub)"

fun js_includes :: "string \<Rightarrow> string \<Rightarrow> bool" where
  "js_includes [] sub = (sub = [])"
| "js_includes (x # s) sub = (startsWith (x # s) sub \<or> js_includes s sub)"

fun partIncludes :: "part \<Rightarrow> string \<Rightarrow> bool" where
  "partIncludes (Lit s) sub = js_includes s sub"
| "partIncludes (Num x) sub = False"

definition msgIncludes :: "message \<Rightarrow> string \<Rightarrow> bool" where
  "msgIncludes m sub = list_ex (\<lambda>p. partIncludes p sub) m"

subsection \<open>methods/methods.ts\<close>

definition adjustmentsOf :: "(PrayerName \<times> real) list \<Rightarrow> (PrayerName \<Rightarrow> real option) option" where
  "adjustmentsOf entries = Some (map_of entries)"

definition standardMethod :: "real \<Rightarrow> AngleOrInterval \<Rightarrow> MethodParams" where
  "standardMethod f i =
     \<lparr>mp_fajr = f, mp_isha = i, mp_maghrib = Some (Interval 1), mp_midnight = StandardMidnight,
      mp_shafaq = None, mp_adjustments = None\<rparr>"

fun CALCULATION_METHODS :: "MethodCode \<Rightarrow> MethodParams option" where
  "CALCULATION_METHODS ISNA = Some ((standardMethod 15 (Angle 15))
     \<lparr>mp_adjustments := adjustmentsOf
        [(Fajr, -12.5), (Dhuhr, 5), (Asr, -1), (Maghrib, 2), (Isha, -1.5)]\<rparr>)"
| "CALCULATION_METHODS MWL = Some ((standardMethod 18 (Angle 17))
     \<lparr>mp_adjustments := adjustmentsOf [(Dhuhr, 1)]\<rparr>)"
| "CALCULATION_METHODS Egypt = Some ((standardMethod 19.5 (Angle 17.5))
     \<lparr>mp_adjustments := adjustmentsOf
        [(Fajr, -0.5), (Sunrise, -0.5), (Asr, 0.5), (Maghrib, -1)]\<rparr>)"
| "CALCULATION_METHODS UmmAlQura = Some (standardMethod 18.5 (Interval 90))"
| "CALCULATION_METHODS Qatar = Some ((standardMethod 18 (Interval 90))
     \<lparr>mp_adjustments := adjustmentsOf [(Fajr, -0.5), (Maghrib, 2), (Isha, 3)]\<rparr>)"
| "CALCULATION_METHODS Dubai = Some ((standardMethod 18.2 (Angle 18.2))
     \<lparr>mp_adjustments := adjustmentsOf
        [(Sunrise, -3.5), (Dhuhr, 3), (Asr, 1.5), (Maghrib, 2.5), (Isha, 0.5)]\<rparr>)"
| "CALCULATION_METHODS JAKIM = Some ((standardMethod 18 (Angle 18))
     \<lparr>mp_adjustments := adjustmentsOf [(Fajr, 1), (Dhuhr, 2), (Asr, 1), (Isha, 1)]\<rparr>)"
| "CALCULATION_METHODS Kemenag = Some ((standardMethod 20 (Angle 18))
     \<lparr>mp_adjustments := adjustmentsOf
        [(Fajr, 2), (Dhuhr, 3), (Asr, 2), (Maghrib, 2), (Isha, 2), (Sunrise, -4)]\<rparr>)"
| "CALCULATION_METHODS Singapore = Some ((standardMethod 20 (Angle 18))
     \<lparr>mp_adjustments := adjustmentsOf
        [(Fajr, 0.5), (Sunrise, 0.5), (Dhuhr, 1), (Asr, 1), (Isha, 1)]\<rparr>)"
| "CALCULATION_METHODS France12 = Some (standardMethod 12 (Angle 12))"
| "CALCULATION_METHODS France15 = Some (standardMethod 15 (Angle 15))"
| "CALCULATION_METHODS France18 = Some (standardMethod 18 (Angle 18))"
| "CALCULATION_METHODS Turkey = Some ((standardMethod 18 (Angle 17))
     \<lparr>mp_adjustments := adjustmentsOf
        [(Sunrise, -7), (Dhuhr, 5), (Asr, 5.5), (Maghrib, 7), (Isha, 1.5)]\<rparr>)"
| "CALCULATION_METHODS Russia = Some ((standardMethod 16 (Angle 15))
     \<lparr>mp_adjustments := adjustmentsOf
        [(Fajr, -0.5), (Sunrise, -0.5), (Dhuhr, -0.5), (Asr, 0.5), (Maghrib, -1.5),
         (Isha, -0.5)]\<rparr>)"
| "CALCULATION_METHODS Moonsighting = Some ((standardMethod 18 (Angle 18))
     \<lparr>mp_shafaq := Some General, mp_adjustments := adjustmentsOf [(Dhuhr, 5), (Maghrib, 3)]\<rparr>)"
| "CALCULATION_METHODS Tehran = Some ((standardMethod 17.7 (Angle 14))
     \<lparr>mp_maghrib := Some (Angle 4.5), mp_midnight := JafariMidnight\<rparr>)"
| "CALCULATION_METHODS Jafari = Some ((standardMethod 16 (Angle 14))
     \<lparr>mp_maghrib := Some (Angle 4), mp_midnight := JafariMidnight\<rparr>)"
| "CALCULATION_METHODS Karachi = Some ((standardMethod 18 (Angle 18))
     \<lparr>mp_adjustments := adjustmentsOf [(Dhuhr, 1)]\<rparr>)"
| "CALCULATION_METHODS Custom = Some (standardMethod 18 (Angle 17))"
| "CALCULATION_METHODS JAKIMKN = None"

text \<open>The method code as the string that it is in the code.\<close>

fun methodCodeName :: "MethodCode \<Rightarrow> string" where
  "methodCodeName ISNA = ''ISNA''"
| "methodCodeName MWL = ''MWL''"
| "methodCodeName Egypt = ''Egypt''"
| "methodCodeName UmmAlQura = ''UmmAlQura''"
| "methodCodeName Qatar = ''Qatar''"
| "methodCodeName Dubai = ''Dubai''"
| "methodCodeName JAKIM = ''JAKIM''"
| "methodCodeName JAKIMKN = ''JAKIMKN''"
| "methodCodeName Kemenag = ''Kemenag''"
| "methodCodeName Singapore = ''Singapore''"
| "methodCodeName France12 = ''France12''"
| "methodCodeName France15 = ''France15''"
| "methodCodeName France18 = ''France18''"
| "methodCodeName Turkey = ''Turkey''"
| "methodCodeName Russia = ''Russia''"
| "methodCodeName Moonsighting = ''Moonsighting''"
| "methodCodeName Tehran = ''Tehran''"
| "methodCodeName Jafari = ''Jafari''"
| "methodCodeName Karachi = ''Karachi''"
| "methodCodeName Custom = ''Custom''"

text \<open>\<open>getMethodParams\<close> throws for a method code without an entry, and
  \<open>isValidMethod\<close> is \<open>method in CALCULATION_METHODS\<close>.\<close>

definition getMethodParams :: "MethodCode \<Rightarrow> message + MethodParams" where
  "getMethodParams method =
     (case CALCULATION_METHODS method of
        None \<Rightarrow> Inl [Lit ''Unknown calculation method: '', Lit (methodCodeName method)]
      | Some params \<Rightarrow> Inr params)"


subsection \<open>engine/calculator.ts: user adjustments\<close>

text \<open>
  \<open>applyUserAdjustments\<close> copies the record and walks \<open>Object.entries(adjustments)\<close>, a
  list of key/value pairs whose keys are pairwise different.  An entry is applied when its
  key is not \<open>sunrise\<close> ("Sunrise is calculated, not adjusted").
\<close>

fun applyUserAdjustments :: "PrayerTimes \<Rightarrow> (PrayerName \<times> real) list \<Rightarrow> PrayerTimes" where
  "applyUserAdjustments adjustedTimes [] = adjustedTimes"
| "applyUserAdjustments adjustedTimes ((prayer, adjustment) # entries) =
     applyUserAdjustments
       (if prayer \<noteq> Sunrise
        then setField prayer (addMinutes (getField prayer adjustedTimes) adjustment) adjustedTimes
        else adjustedTimes)
       entries"

subsection \<open>utils/math.ts\<close>

text \<open>Degree-based trigonometry; \<open>Math.round(x)\<close> is \<open>\<lfloor>x + 1/2\<rfloor>\<close>.\<close>

definition dtr :: "real \<Rightarrow> real" where
  "dtr degrees = (degrees * pi) / 180"

definition rtd :: "real \<Rightarrow> real" where
  "rtd radians = (radians * 180) / pi"

definition sin_d :: "real \<Rightarrow> real" where
  "sin_d degrees = sin (dtr degrees)"

definition cos_d :: "real \<Rightarrow> real" where
  "cos_d degrees = cos (dtr degrees)"

definition Math_round :: "real \<Rightarrow> int" where
  "Math_round x = \<lfloor>x + 1 / 2\<rfloor>"

subsection \<open>utils/astronomy.ts\<close>

definition nutationInLongitude :: "real \<Rightarrow> real \<Rightarrow> real \<Rightarrow> real \<Rightarrow> real" where
  "nutationInLongitude julianCentury solarLongitude lunarLongitude ascendingNode =
     (let L0 = solarLongitude;
          Lp = lunarLongitude;
          Omega = ascendingNode;
          term1 = (-17.2 / 3600) * sin_d Omega;
          term2 = (1.32 / 3600) * sin_d (2 * L0);
          term3 = (0.23 / 3600) * sin_d (2 * Lp);
          term4 = (0.21 / 3600) * sin_d (2 * Omega)
      in term1 - term2 - term3 + term4)"

definition nutationInObliquity :: "real \<Rightarrow> real \<Rightarrow> real \<Rightarrow> real \<Rightarrow> real" where
  "nutationInObliquity julianCentury solarLongitude lunarLongitude ascendingNode =
     (let L0 = solarLongitude;
          Lp = lunarLongitude;
          Omega = ascendingNode;
          term1 = (9.2 / 3600) * cos_d Omega;
          term2 = (0.57 / 3600) * cos_d (2 * L0);
          term3 = (0.1 / 3600) * cos_d (2 * Lp);
          term4 = (0.09 / 3600) * cos_d (2 * Omega)
      in term1 + term2 + term3 - term4)"

definition isLeapYear :: "int \<Rightarrow> bool" where
  "isLeapYear year =
     (if year mod 4 \<noteq> 0 then False
      else if year mod 100 = 0 \<and> year mod 400 \<noteq> 0 then False
      else True)"

definition daysSinceSolstice :: "int \<Rightarrow> int \<Rightarrow> real \<Rightarrow> int" where
  "daysSinceSolstice dayOfYear year lat =
     (let northernOffset = 10;
          southernOffset = (if isLeapYear year then 173 else 172);
          daysInYear = (if isLeapYear year then 366 else 365)
      in if lat \<ge> 0
         then (let d = dayOfYear + northernOffset
               in if d \<ge> daysInYear then d - daysInYear else d)
         else (let d = dayOfYear - southernOffset
               in if d < 0 then d + daysInYear else d))"

subsection \<open>Season-adjusted twilight: engine/astronomical.ts\<close>

text \<open>The piecewise blend over the days since the solstice, written once in each function
  of the source with the same six branches.\<close>

definition seasonBlend :: "real \<Rightarrow> real \<Rightarrow> real \<Rightarrow> real \<Rightarrow> int \<Rightarrow> real" where
  "seasonBlend a b c d dyy =
     (if dyy < 91 then a + ((b - a) / 91.0) * of_int dyy
      else if dyy < 137 then b + ((c - b) / 46.0) * of_int (dyy - 91)
      else if dyy < 183 then c + ((d - c) / 46.0) * of_int (dyy - 137)
      else if dyy < 229 then d + ((c - d) / 46.0) * of_int (dyy - 183)
      else if dyy < 275 then c + ((b - c) / 46.0) * of_int (dyy - 229)
      else b + ((a - b) / 91.0) * of_int (dyy - 275))"

definition seasonAdjustedMorningTwilight :: "real \<Rightarrow> int \<Rightarrow> int \<Rightarrow> Date \<Rightarrow> Date" where
  "seasonAdjustedMorningTwilight lat dayOfYearValue year sunriseD =
     (let a = 75 + (28.65 / 55.0) * \<bar>lat\<bar>;
          b = 75 + (19.44 / 55.0) * \<bar>lat\<bar>;
          c = 75 + (32.74 / 55.0) * \<bar>lat\<bar>;
          d = 75 + (48.1 / 55.0) * \<bar>lat\<bar>;
          dyy = daysSinceSolstice dayOfYearValue year lat;
          adjustment = seasonBlend a b c d dyy
      in addSeconds sunriseD (of_int (Math_round (adjustment * -60.0))))"

definition eveningCoefficients :: "Shafaq \<Rightarrow> real \<Rightarrow> real \<times> real \<times> real \<times> real" where
  "eveningCoefficients shafaq lat =
     (if shafaq = Ahmer then
        (62 + (17.4 / 55.0) * \<bar>lat\<bar>, 62 - (7.16 / 55.0) * \<bar>lat\<bar>,
         62 + (5.12 / 55.0) * \<bar>lat\<bar>, 62 + (19.44 / 55.0) * \<bar>lat\<bar>)
      else if shafaq = Abyad then
        (75 + (25.6 / 55.0) * \<bar>lat\<bar>, 75 + (7.16 / 55.0) * \<bar>lat\<bar>,
         75 + (36.84 / 55.0) * \<bar>lat\<bar>, 75 + (81.84 / 55.0) * \<bar>lat\<bar>)
      else
        (75 + (25.6 / 55.0) * \<bar>lat\<bar>, 75 + (7.16 / 55.0) * \<bar>lat\<bar>,
         75 + (36.84 / 55.0) * \<bar>lat\<bar>, 75 + (81.84 / 55.0) * \<bar>lat\<bar>))"

definition seasonAdjustedEveningTwilight ::
  "real \<Rightarrow> int \<Rightarrow> int \<Rightarrow> Date \<Rightarrow> Shafaq \<Rightarrow> Date" where
  "seasonAdjustedEveningTwilight lat dayOfYearValue year sunsetD shafaq =
     (case eveningCoefficients shafaq lat of (a, b, c, d) \<Rightarrow>
        (let dyy = daysSinceSolstice dayOfYearValue year lat;
             adjustment = seasonBlend a b c d dyy
         in addSeconds sunsetD (of_int (Math_round (adjustment * 60.0)))))"

subsection \<open>Season-adjusted twilight: the copy in utils/polar.ts\<close>

record SeasonAdjustmentParams =
  sap_latitude :: real
  sap_dayOfYear :: int
  sap_year :: int
  sap_baseTime :: Date

definition polar_eveningCoefficients :: "Shafaq \<Rightarrow> real \<Rightarrow> real \<times> real \<times> real \<times> real" where
  "polar_eveningCoefficients shafaq lat =
     (if shafaq = Ahmer then
        (62 + (17.4 / 55.0) * \<bar>lat\<bar>, 62 - (7.16 / 55.0) * \<bar>lat\<bar>,
         62 + (5.12 / 55.0) * \<bar>lat\<bar>, 62 + (19.44 / 55.0) * \<bar>lat\<bar>)
      else if shafaq = Abyad then
        (75 + (25.6 / 55.0) * \<bar>lat\<bar>, 75 + (7.16 / 55.0) * \<bar>lat\<bar>,
         75 + (36.84 / 55.0) * \<bar>lat\<bar>, 75 + (81.84 / 55.0) * \<bar>lat\<bar>)
      else
        (75 + (25.6 / 55.0) * \<bar>lat\<bar>, 75 + (2.05 / 55.0) * \<bar>lat\<bar>,
         75 - (9.21 / 55.0) * \<bar>lat\<bar>, 75 + (6.14 / 55.0) * \<bar>lat\<bar>))"

definition polar_seasonAdjustedMorningTwilight :: "SeasonAdjustmentParams \<Rightarrow> Date" where
  "polar_seasonAdjustedMorningTwilight params =
     (let lat = sap_latitude params;
          a = 75 + (28.65 / 55.0) * \<bar>lat\<bar>;
          b = 75 + (19.44 / 55.0) * \<bar>lat\<bar>;
          c = 75 + (32.74 / 55.0) * \<bar>lat\<bar>;
          d = 75 + (48.1 / 55.0) * \<bar>lat\<bar>;
          dyy = daysSinceSolstice (sap_dayOfYear params) (sap_year params) lat;
          adjustment = seasonBlend a b c d dyy
      in addSeconds (sap_baseTime params) (of_int (Math_round (adjustment * -60.0))))"

definition polar_seasonAdjustedEveningTwilight :: "SeasonAdjustmentParams \<Rightarrow> Shafaq \<Rightarrow> Date" where
  "polar_seasonAdjustedEveningTwilight params shafaq =
     (let lat = sap_latitude params
      in case polar_eveningCoefficients shafaq lat of (a, b, c, d) \<Rightarrow>
        (let dyy = daysSinceSolstice (sap_dayOfYear params) (sap_year params) lat;
             adjustment = seasonBlend a b c d dyy
         in addSeconds (sap_baseTime params) (of_int (Math_round (adjustment * 60.0)))))"

definition tan_d :: "real \<Rightarrow> real" where
  "tan_d degrees = tan (dtr degrees)"

definition arcsin_d :: "real \<Rightarrow> real" where
  "arcsin_d v = rtd (arcsin v)"

definition unwindAngle :: "real \<Rightarrow> real" where
  "unwindAngle angle = angle - 360 * of_int \<lfloor>angle / 360\<rfloor>"

definition interpolate :: "real \<Rightarrow> real \<Rightarrow> real \<Rightarrow> real \<Rightarrow> real" where
  "interpolate y2 y1 y3 n =
     (let a = y2 - y1; b = y3 - y2; c = b - a
      in y2 + (n / 2) * (a + b + n * c))"

definition interpolateAngles :: "real \<Rightarrow> real \<Rightarrow> real \<Rightarrow> real \<Rightarrow> real" where
  "interpolateAngles y2 y1 y3 n =
     (let a = unwindAngle (y2 - y1); b = unwindAngle (y3 - y2); c = b - a
      in y2 + (n / 2) * (a + b + n * c))"

definition altitudeOfCelestialBody :: "real \<Rightarrow> real \<Rightarrow> real \<Rightarrow> real" where
  "altitudeOfCelestialBody observerLatitude declination localHourAngle =
     (let Phi = observerLatitude; delta = declination; H = localHourAngle;
          term1 = sin_d Phi * sin_d delta;
          term2 = cos_d Phi * cos_d delta * cos_d H
      in arcsin_d (term1 + term2))"

subsection \<open>engine/astronomical.ts: the corrected hour angle\<close>

text \<open>
  \<open>Math.acos\<close> is \<open>NaN\<close> outside \<open>[-1, 1]\<close>, and a quotient by zero is \<open>NaN\<close> or
  infinite; the result is \<open>None\<close> in both cases.  An infinite hour value, which the code
  has when \<open>term4\<close> is exactly zero and \<open>term3\<close> is not, is thus taken as \<open>NaN\<close>: the
  loops of \<open>createUTCDateFromHours\<close> in the code do not end on an infinite value, so what
  is stated below about a calculation that returns is about hour values that are finite or
  \<open>NaN\<close>.
\<close>

definition correctedHourAngle ::
  "real \<Rightarrow> real \<Rightarrow> Coordinates \<Rightarrow> bool \<Rightarrow> real \<Rightarrow> real \<Rightarrow> real \<Rightarrow> real \<Rightarrow> real \<Rightarrow> real \<Rightarrow> real
   \<Rightarrow> real option" where
  "correctedHourAngle approximateTransit angle coords afterTransit siderealTime rightAscension
     previousRightAscension nextRightAscension declination previousDeclination nextDeclination =
     (let m0 = approximateTransit; h0 = angle; Theta0 = siderealTime;
          a2 = rightAscension; a1 = previousRightAscension; a3 = nextRightAscension;
          d2 = declination; d1 = previousDeclination; d3 = nextDeclination;
          Lw = longitude coords * -1;
          term1 = sin (dtr h0) - sin (dtr (latitude coords)) * sin (dtr d2);
          term2 = cos (dtr (latitude coords)) * cos (dtr d2)
      in if term2 = 0 \<or> term1 / term2 < -1 \<or> 1 < term1 / term2 then None
         else
          (let H0 = rtd (arccos (term1 / term2));
               m = (if afterTransit then m0 + H0 / 360 else m0 - H0 / 360);
               Theta = unwindAngle (Theta0 + 360.985647 * m);
               a = unwindAngle (interpolateAngles a2 a1 a3 m);
               delta = interpolate d2 d1 d3 m;
               H = Theta - Lw - a;
               h = altitudeOfCelestialBody (latitude coords) delta H;
               term3 = h - h0;
               term4 = 360 * cos (dtr delta) * cos (dtr (latitude coords)) * sin (dtr H)
           in if term4 = 0 then None
              else (let dm = term3 / term4 in Some ((m + dm) * 24))))"

subsection \<open>engine/solar-coordinates.ts, engine/solar-time.ts\<close>

record SolarCoordinates =
  declination :: real
  rightAscension :: real
  apparentSiderealTime :: real

text \<open>
  The fields of a \<open>SolarTime\<close> object.  \<open>sunrise\<close> and \<open>sunset\<close> are corrected hour
  angles and may be \<open>NaN\<close>.
\<close>

record SolarTime =
  observer :: Coordinates
  solar :: SolarCoordinates
  prevSolar :: SolarCoordinates
  nextSolar :: SolarCoordinates
  approxTransit :: real
  transit :: real
  st_sunrise :: "real option"
  st_sunset :: "real option"

definition hourAngle :: "SolarTime \<Rightarrow> real \<Rightarrow> bool \<Rightarrow> real option" where
  "hourAngle this angle afterTransit =
     correctedHourAngle (approxTransit this) angle (observer this) afterTransit
       (apparentSiderealTime (solar this)) (rightAscension (solar this))
       (rightAscension (prevSolar this)) (rightAscension (nextSolar this))
       (declination (solar this)) (declination (prevSolar this)) (declination (nextSolar this))"

text \<open>The shadow angle of \<open>afternoon\<close>, and \<open>afternoon\<close> itself.\<close>

definition shadowAngle :: "SolarTime \<Rightarrow> real \<Rightarrow> real" where
  "shadowAngle this shadowLength =
     (let tangent = \<bar>latitude (observer this) - declination (solar this)\<bar>;
          inverse = shadowLength + tan (dtr tangent)
      in rtd (arctan (1.0 / inverse)))"

definition afternoon :: "SolarTime \<Rightarrow> real \<Rightarrow> real option" where
  "afternoon this shadowLength = hourAngle this (shadowAngle this shadowLength) True"

subsection \<open>The runtime and the solver, as given\<close>

text \<open>
  The calendar of the JavaScript runtime and the construction of a \<open>SolarTime\<close> from a
  date and coordinates (the astronomy kernel) are taken as given:
  \<open>solarTimeOf d c\<close> is \<open>new SolarTime(d, c)\<close>, \<open>getFullYear d\<close> the local year of \<open>d\<close>,
  \<open>startOfYear y\<close> the time value of \<open>new Date(y, 0, 0)\<close>, \<open>nextDay d\<close> the date after
  \<open>setDate(getDate() + 1)\<close>, \<open>startOfLocalDay d\<close> the date after \<open>setHours(0, 0, 0, 0)\<close>.
\<close>

record Runtime =
  solarTimeOf :: "int \<Rightarrow> Coordinates \<Rightarrow> SolarTime"
  getFullYear :: "int \<Rightarrow> int"
  startOfYear :: "int \<Rightarrow> int"
  nextDay :: "int \<Rightarrow> int"
  startOfLocalDay :: "int \<Rightarrow> int"

text \<open>\<open>dayOfYear\<close> of utils/astronomy.ts.\<close>

definition dayOfYear :: "Runtime \<Rightarrow> int \<Rightarrow> int" where
  "dayOfYear rt d =
     (let start = startOfYear rt (getFullYear rt d);
          diff = d - start
      in \<lfloor>of_int diff / (1000 * 60 * 60 * 24 :: real)\<rfloor>)"

subsection \<open>engine/precision.ts\<close>

record CalculationContext =
  ctx_date :: int
  coordinates :: Coordinates
  methodParams :: MethodParams
  methodCode :: "MethodCode option"
  elevation :: real
  highLatitudeRule :: HighLatitudeRule
  asrSchool :: AsrSchool
  iterations :: real

text \<open>
  \<open>createUTCDateFromHours\<close>.  The two \<open>while\<close> loops bring the hours into \<open>[0, 24)\<close> and
  count days; \<open>adjustedDay\<close> is counted from the day of the base date, and
  \<open>Date.UTC(year, month, day + k, h, m, s)\<close> is the UTC midnight of the base date plus
  \<open>k\<close> days, \<open>h\<close> hours, \<open>m\<close> minutes and \<open>s\<close> seconds.  The hours are a real
  number here and a finite double in the code, where \<open>(h % 1) * 60\<close> is rounded before
  \<open>Math.floor\<close>: at an hour value within the rounding error of a whole minute or second
  the code can find the second before the one of this function (12:00:08 for 12.0025 hours,
  which is 12:00:09 exactly).  No statement below on the difference of two such Dates is
  made for all hour values, and the examples evaluate the function at hour values where
  the code finds the same second.
\<close>

function wrapNegativeHours :: "real \<Rightarrow> int \<Rightarrow> real \<times> int" where
  "wrapNegativeHours adjustedHours adjustedDay =
     (if adjustedHours < 0 then wrapNegativeHours (adjustedHours + 24) (adjustedDay - 1)
      else (adjustedHours, adjustedDay))"
  by pat_completeness auto
termination
proof (relation "measure (\<lambda>(h, d). nat \<lceil>- h / 24\<rceil>)")
  show "wf (measure (\<lambda>(h, d). nat \<lceil>- h / 24\<rceil>))" by simp
next
  fix adjustedHours :: real and adjustedDay :: int
  assume neg: "adjustedHours < 0"
  define x where "x = - adjustedHours / 24"
  have e: "- (adjustedHours + 24) / 24 = x - 1"
    unfolding x_def by (simp add: field_simps)
  from neg have pos: "0 < x" unfolding x_def by simp
  then have "0 < \<lceil>x\<rceil>" by simp
  then have lt: "nat \<lceil>x - 1\<rceil> < nat \<lceil>x\<rceil>" by (simp add: ceiling_diff_one)
  show "((adjustedHours + 24, adjustedDay - 1), (adjustedHours, adjustedDay))
      \<in> measure (\<lambda>(h, d). nat \<lceil>- h / 24\<rceil>)"
    using lt by (simp only: in_measure prod.case e x_def[symmetric])
qed

function wrapLargeHours :: "real \<Rightarrow> int \<Rightarrow> real \<times> int" where
  "wrapLargeHours adjustedHours adjustedDay =
     (if adjustedHours \<ge> 24 then wrapLargeHours (adjustedHours - 24) (adjustedDay + 1)
      else (adjustedHours, adjustedDay))"
  by pat_completeness auto
termination
proof (relation "measure (\<lambda>(h, d). nat \<lfloor>h / 24\<rfloor>)")
  show "wf (measure (\<lambda>(h, d). nat \<lfloor>h / 24\<rfloor>))" by simp
next
  fix adjustedHours :: real and adjustedDay :: int
  assume big: "24 \<le> adjustedHours"
  define x where "x = adjustedHours / 24"
  have e: "(adjustedHours - 24) / 24 = x - 1"
    unfolding x_def by (simp add: field_simps)
  from big have "1 \<le> x" unfolding x_def by simp
  then have "1 \<le> \<lfloor>x\<rfloor>" by (simp add: le_floor_iff)
  then have lt: "nat \<lfloor>x - 1\<rfloor> < nat \<lfloor>x\<rfloor>" by (simp add: floor_diff_one)
  show "((adjustedHours - 24, adjustedDay + 1), (adjustedHours, adjustedDay))
      \<in> measure (\<lambda>(h, d). nat \<lfloor>h / 24\<rfloor>)"
    using lt by (simp only: in_measure prod.case e x_def[symmetric])
qed

declare wrapNegativeHours.simps [simp del] wrapLargeHours.simps [simp del]

definition utcMidnight :: "int \<Rightarrow> int" where
  "utcMidnight d = d - d mod 86400000"

definition createUTCDateFromHours :: "real option \<Rightarrow> int \<Rightarrow> Date" where
  "createUTCDateFromHours utcHours baseDate =
     (case utcHours of None \<Rightarrow> None
      | Some h0 \<Rightarrow>
        (case wrapNegativeHours h0 0 of (h1, day1) \<Rightarrow>
         case wrapLargeHours h1 day1 of (adjustedHours, adjustedDay) \<Rightarrow>
           (let hours = \<lfloor>adjustedHours\<rfloor>;
                minutes = \<lfloor>frac adjustedHours * 60\<rfloor>;
                seconds = \<lfloor>frac (frac adjustedHours * 60) * 60\<rfloor>
            in Some (utcMidnight baseDate + adjustedDay * 86400000 + hours * 3600000
                     + minutes * 60000 + seconds * 1000))))"

text \<open>Hours of a Date counted from the calculation date:
  \<open>(d.getTime() - context.date.getTime()) / (1000 * 60 * 60)\<close>.\<close>

definition hoursSince :: "Date \<Rightarrow> int \<Rightarrow> real option" where
  "hoursSince d baseDate =
     (case d of None \<Rightarrow> None | Some t \<Rightarrow> Some (of_int (t - baseDate) / (1000 * 60 * 60)))"

text \<open>
  The block that \<open>calculateFajrTime\<close> and \<open>calculateIshaTime\<close> both contain for the
  Moonsighting method: the night from today's sunset to tomorrow's sunrise, in seconds,
  and its seventh.
\<close>

definition nightFractionOf :: "Runtime \<Rightarrow> SolarTime \<Rightarrow> CalculationContext \<Rightarrow> real option" where
  "nightFractionOf rt solarTime ctx =
     (let tomorrow = nextDay rt (ctx_date ctx);
          tomorrowSolarTime = solarTimeOf rt tomorrow (coordinates ctx);
          tomorrowSunriseDate = createUTCDateFromHours (st_sunrise tomorrowSolarTime) tomorrow;
          sunsetDate = createUTCDateFromHours (st_sunset solarTime) (ctx_date ctx)
      in case (tomorrowSunriseDate, sunsetDate) of
           (Some r, Some s) \<Rightarrow>
             (let night = of_int (r - s) / 1000;
                  nightFraction = night / 7
              in Some nightFraction)
         | _ \<Rightarrow> None)"

definition getSafeFajrTime :: "Runtime \<Rightarrow> CalculationContext \<Rightarrow> Date \<Rightarrow> Date option" where
  "getSafeFajrTime rt ctx sunriseTime =
     (if methodCode ctx = Some Moonsighting then
        (let dayOfYearValue = dayOfYear rt (ctx_date ctx)
         in Some (seasonAdjustedMorningTwilight (latitude (coordinates ctx)) dayOfYearValue
                    (getFullYear rt (ctx_date ctx)) sunriseTime))
      else None)"

definition calculateFajrTime ::
  "Runtime \<Rightarrow> SolarTime \<Rightarrow> MethodParams \<Rightarrow> CalculationContext \<Rightarrow> Date \<Rightarrow> real option" where
  "calculateFajrTime rt solarTime mp ctx sunriseTime =
     (let fajrTime0 = hourAngle solarTime (- mp_fajr mp) False;
          fajrTime =
            (if methodCode ctx = Some Moonsighting \<and> \<bar>latitude (coordinates ctx)\<bar> \<ge> 55 then
               (case (sunriseTime, nightFractionOf rt solarTime ctx) of
                  (Some s, Some nightFraction) \<Rightarrow>
                    (let adjustedFajrTime = newDate (of_int s - nightFraction * 1000)
                     in hoursSince adjustedFajrTime (ctx_date ctx))
                | _ \<Rightarrow> None)
             else fajrTime0);
          safeFajr = getSafeFajrTime rt ctx sunriseTime
      in if fajrTime = None
            \<or> (case safeFajr of None \<Rightarrow> False
                | Some sd \<Rightarrow>
                   (case (hoursSince sd (ctx_date ctx), fajrTime) of
                      (Some sh, Some f) \<Rightarrow> sh > f
                    | _ \<Rightarrow> False))
         then (case safeFajr of Some sd \<Rightarrow> hoursSince sd (ctx_date ctx) | None \<Rightarrow> fajrTime)
         else fajrTime)"

text \<open>\<open>!methodParams.maghrib\<close> holds for a missing parameter and for the number 0.\<close>

definition calculateMaghribTime :: "SolarTime \<Rightarrow> MethodParams \<Rightarrow> real option" where
  "calculateMaghribTime solarTime mp =
     (case mp_maghrib mp of
        None \<Rightarrow> st_sunset solarTime
      | Some (Angle v) \<Rightarrow> (if v = 0 then st_sunset solarTime else hourAngle solarTime (- v) True)
      | Some (Interval v) \<Rightarrow>
          (case st_sunset solarTime of None \<Rightarrow> None | Some s \<Rightarrow> Some (s + v / 60)))"

definition getSafeIshaTime :: "Runtime \<Rightarrow> CalculationContext \<Rightarrow> Date \<Rightarrow> Date option" where
  "getSafeIshaTime rt ctx sunsetTime =
     (if methodCode ctx = Some Moonsighting then
        (let dayOfYearValue = dayOfYear rt (ctx_date ctx);
             shafaq = (if mp_shafaq (methodParams ctx) = Some Ahmer then Ahmer
                       else if mp_shafaq (methodParams ctx) = Some Abyad then Abyad
                       else General)
         in Some (seasonAdjustedEveningTwilight (latitude (coordinates ctx)) dayOfYearValue
                    (getFullYear rt (ctx_date ctx)) sunsetTime shafaq))
      else None)"

definition calculateIshaTime ::
  "Runtime \<Rightarrow> SolarTime \<Rightarrow> MethodParams \<Rightarrow> CalculationContext \<Rightarrow> Date \<Rightarrow> real option" where
  "calculateIshaTime rt solarTime mp ctx sunsetTime =
     (let ishaTime0 =
            (case mp_isha mp of
               Angle v \<Rightarrow> hourAngle solarTime (- v) True
             | Interval v \<Rightarrow>
                 (case st_sunset solarTime of None \<Rightarrow> None | Some s \<Rightarrow> Some (s + v / 60)));
          ishaTime =
            (if methodCode ctx = Some Moonsighting \<and> \<bar>latitude (coordinates ctx)\<bar> \<ge> 55 then
               (case (sunsetTime, nightFractionOf rt solarTime ctx) of
                  (Some s, Some nightFraction) \<Rightarrow>
                    (let adjustedIshaTime = newDate (of_int s + nightFraction * 1000)
                     in hoursSince adjustedIshaTime (ctx_date ctx))
                | _ \<Rightarrow> None)
             else ishaTime0);
          safeIsha = getSafeIshaTime rt ctx sunsetTime
      in if ishaTime = None
            \<or> (case safeIsha of None \<Rightarrow> False
                | Some sd \<Rightarrow>
                   (case (hoursSince sd (ctx_date ctx), ishaTime) of
                      (Some sh, Some i) \<Rightarrow> sh < i
                    | _ \<Rightarrow> False))
         then (case safeIsha of Some sd \<Rightarrow> hoursSince sd (ctx_date ctx) | None \<Rightarrow> ishaTime)
         else ishaTime)"

text \<open>
  The method adjustments of \<open>calculatePrecisePrayerTimes\<close>: a field is moved when the
  adjustments object exists and its entry for the field is truthy (present and not 0);
  \<open>sunset\<close> is never moved.  Then every field is rounded to the nearest minute.
\<close>

definition adjustOne :: "(PrayerName \<Rightarrow> real option) \<Rightarrow> PrayerName \<Rightarrow> Date \<Rightarrow> Date" where
  "adjustOne adj name d =
     (case adj name of None \<Rightarrow> d | Some a \<Rightarrow> (if a \<noteq> 0 then addMinutes d a else d))"

definition applyMethodAdjustments :: "MethodParams \<Rightarrow> PrayerTimes \<Rightarrow> PrayerTimes" where
  "applyMethodAdjustments mp adjustedTimes =
     (case mp_adjustments mp of
        None \<Rightarrow> adjustedTimes
      | Some adj \<Rightarrow>
          \<lparr>fajr = adjustOne adj Fajr (fajr adjustedTimes),
           sunrise = adjustOne adj Sunrise (sunrise adjustedTimes),
           dhuhr = adjustOne adj Dhuhr (dhuhr adjustedTimes),
           asr = adjustOne adj Asr (asr adjustedTimes),
           sunset = sunset adjustedTimes,
           maghrib = adjustOne adj Maghrib (maghrib adjustedTimes),
           isha = adjustOne adj Isha (isha adjustedTimes)\<rparr>)"

definition roundTimes :: "PrayerTimes \<Rightarrow> PrayerTimes" where
  "roundTimes adjustedTimes =
     \<lparr>fajr = roundedMinute (fajr adjustedTimes) Nearest,
      sunrise = roundedMinute (sunrise adjustedTimes) Nearest,
      dhuhr = roundedMinute (dhuhr adjustedTimes) Nearest,
      asr = roundedMinute (asr adjustedTimes) Nearest,
      sunset = roundedMinute (sunset adjustedTimes) Nearest,
      maghrib = roundedMinute (maghrib adjustedTimes) Nearest,
      isha = roundedMinute (isha adjustedTimes) Nearest\<rparr>"

text \<open>The instants of \<open>calculatePrecisePrayerTimes\<close> before adjustment and rounding.\<close>

definition currentTimes :: "Runtime \<Rightarrow> CalculationContext \<Rightarrow> PrayerTimes" where
  "currentTimes rt ctx =
     (let d = ctx_date ctx;
          mp = methodParams ctx;
          solarTime = solarTimeOf rt d (coordinates ctx);
          sunriseD = createUTCDateFromHours (st_sunrise solarTime) d;
          sunsetD = createUTCDateFromHours (st_sunset solarTime) d;
          fajrTime = calculateFajrTime rt solarTime mp ctx sunriseD;
          asrShadowLength = (if asrSchool ctx = Hanafi then 2 else 1);
          asrTime = afternoon solarTime asrShadowLength;
          maghribTime = calculateMaghribTime solarTime mp;
          ishaTime = calculateIshaTime rt solarTime mp ctx sunsetD
      in \<lparr>fajr = createUTCDateFromHours fajrTime d,
          sunrise = sunriseD,
          dhuhr = createUTCDateFromHours (Some (transit solarTime)) d,
          asr = createUTCDateFromHours asrTime d,
          sunset = sunsetD,
          maghrib = createUTCDateFromHours maghribTime d,
          isha = createUTCDateFromHours ishaTime d\<rparr>)"

record IterativeResult =
  ir_value :: PrayerTimes
  ir_iterations :: nat
  ir_converged :: bool

definition calculatePrecisePrayerTimes :: "Runtime \<Rightarrow> CalculationContext \<Rightarrow> IterativeResult" where
  "calculatePrecisePrayerTimes rt ctx =
     (let adjustedTimes = applyMethodAdjustments (methodParams ctx) (currentTimes rt ctx);
          roundedTimes = roundTimes adjustedTimes
      in \<lparr>ir_value = roundedTimes, ir_iterations = 1, ir_converged = True\<rparr>)"

text \<open>\<open>validateCalculationResults\<close>.  A comparison with an Invalid Date is false.\<close>

definition dateGe :: "Date \<Rightarrow> Date \<Rightarrow> bool" where
  "dateGe a b = (case (a, b) of (Some x, Some y) \<Rightarrow> x \<ge> y | _ \<Rightarrow> False)"

definition isCriticalIssue :: "message \<Rightarrow> bool" where
  "isCriticalIssue issue \<longleftrightarrow>
     \<not> msgIncludes issue ''at high latitude'' \<and> \<not> msgIncludes issue ''at latitude''
     \<and> \<not> msgIncludes issue ''Extreme day length''"

record ValidationOutcome =
  vo_isValid :: bool
  vo_issues :: "message list"

definition gapIssue :: "Date \<Rightarrow> Date \<Rightarrow> real \<Rightarrow> bool \<Rightarrow> message \<Rightarrow> string \<Rightarrow> message list" where
  "gapIssue later earlier threshold isHighLatitude plain label =
     (case (later, earlier) of
        (Some l, Some e) \<Rightarrow>
          (let gap = of_int (l - e) / (1000 * 60)
           in if gap > threshold then
                (if isHighLatitude then
                   [[Lit label, Num (of_int (Math_round gap)),
                     Lit ''min) at high latitude - normal in winter'']]
                 else [plain])
              else [])
      | _ \<Rightarrow> [])"

definition dayLengthIssue :: "PrayerTimes \<Rightarrow> real \<Rightarrow> real \<Rightarrow> message \<Rightarrow> message list" where
  "dayLengthIssue tms lo hi text =
     (case (maghrib tms, sunrise tms) of
        (Some m, Some s) \<Rightarrow>
          (let dayLength = of_int (m - s) / (1000 * 60 * 60)
           in if dayLength < lo \<or> dayLength > hi then [text] else [])
      | _ \<Rightarrow> [])"

definition validateCalculationResults :: "PrayerTimes \<Rightarrow> CalculationContext \<Rightarrow> ValidationOutcome" where
  "validateCalculationResults tms ctx =
     (let coords = coordinates ctx;
          ordering =
            (if dateGe (fajr tms) (sunrise tms) then [[Lit ''Fajr time is not before sunrise'']] else [])
            @ (if dateGe (sunrise tms) (dhuhr tms) then [[Lit ''Sunrise time is not before Dhuhr'']] else [])
            @ (if dateGe (dhuhr tms) (asr tms) then [[Lit ''Dhuhr time is not before Asr'']] else [])
            @ (if dateGe (asr tms) (maghrib tms) then [[Lit ''Asr time is not before Maghrib'']] else [])
            @ (if dateGe (maghrib tms) (isha tms) then [[Lit ''Maghrib time is not before Isha'']] else []);
          latitudeAbs = \<bar>latitude coords\<bar>;
          isHighLatitude = latitudeAbs \<ge> 48;
          isExtremeLatitude = latitudeAbs \<ge> 60;
          fajrGapThreshold = (if isExtremeLatitude then 300 else if isHighLatitude then 240 else 180);
          ishaGapThreshold = (if isExtremeLatitude then 360 else if isHighLatitude then 300 else 240);
          fajrGap = gapIssue (sunrise tms) (fajr tms) fajrGapThreshold isHighLatitude
                      [Lit ''Fajr to sunrise gap is unusually large''] ''Large Fajr-sunrise gap ('';
          ishaGap = gapIssue (isha tms) (maghrib tms) ishaGapThreshold isHighLatitude
                      [Lit ''Maghrib to Isha gap is unusually large''] ''Large Maghrib-Isha gap ('';
          dayLen =
            (if isExtremeLatitude then
               (case (maghrib tms, sunrise tms) of
                  (Some m, Some s) \<Rightarrow>
                    (let dayLength = of_int (m - s) / (1000 * 60 * 60)
                     in if dayLength < 2 \<or> dayLength > 22 then
                          [[Lit ''Extreme day length ('', Num dayLength, Lit ''h) at latitude '',
                            Num (latitude coords), Lit [CHR 0xC2, CHR 0xB0]]]
                        else [])
                | _ \<Rightarrow> [])
             else if latitudeAbs > 60 then
               dayLengthIssue tms 4 20 [Lit ''Day length is unusual for high latitude'']
             else []);
          issues = ordering @ fajrGap @ ishaGap @ dayLen;
          criticalIssues = filter isCriticalIssue issues
      in \<lparr>vo_isValid = (length criticalIssues = 0), vo_issues = issues\<rparr>)"

subsection \<open>utils/polar.ts: high-latitude rules\<close>

definition requiresPolarAdjustment :: "real \<Rightarrow> bool" where
  "requiresPolarAdjustment lat \<longleftrightarrow> \<bar>lat\<bar> \<ge> 48"

record PolarAdjustmentParams =
  pap_latitude :: real
  pap_angle :: real
  pap_night :: "real option"
  pap_direction :: "real option"

definition getAdjustmentPortion :: "real \<Rightarrow> real \<Rightarrow> HighLatitudeRule \<Rightarrow> real" where
  "getAdjustmentPortion night angle rule =
     (case rule of
        NightMiddle \<Rightarrow> night * 0.5
      | OneSeventh \<Rightarrow> night / 7
      | AngleBased \<Rightarrow> night * (angle / 60)
      | NoRule \<Rightarrow> night * 0.5)"

definition applyHighLatitudeRule :: "Date \<Rightarrow> PolarAdjustmentParams \<Rightarrow> HighLatitudeRule \<Rightarrow> Date" where
  "applyHighLatitudeRule baseTime params rule =
     (case pap_night params of
        None \<Rightarrow> None
      | Some night \<Rightarrow>
          (let portion = getAdjustmentPortion night (pap_angle params) rule;
               direction = (case pap_direction params of None \<Rightarrow> 1 | Some d \<Rightarrow> d);
               adjustment = portion * direction * 3600
           in addSeconds baseTime adjustment))"

text \<open>\<open>calculateNightLength(sunrise, previousSunset)\<close>: without a third argument the
  next sunrise is the sunrise moved one day on.\<close>

definition calculateNightLength :: "Runtime \<Rightarrow> Date \<Rightarrow> Date \<Rightarrow> real option" where
  "calculateNightLength rt sunriseD previousSunset =
     (case (sunriseD, previousSunset) of
        (Some s, Some p) \<Rightarrow> Some (of_int (nextDay rt s - p) / (1000 * 60 * 60))
      | _ \<Rightarrow> None)"

record SafeTimes =
  safe_fajr :: Date
  safe_isha :: Date
  safe_maghrib :: Date

definition getSafePrayerTimes ::
  "Runtime \<Rightarrow> PrayerTimes \<Rightarrow> Coordinates \<Rightarrow> int \<Rightarrow> real \<Rightarrow> real option \<Rightarrow> HighLatitudeRule \<Rightarrow> SafeTimes" where
  "getSafePrayerTimes rt calculatedTimes coords d fajrAngle ishaAngle rule =
     (let night = calculateNightLength rt (sunrise calculatedTimes) (sunset calculatedTimes);
          dayOfYearValue = dayOfYear rt d;
          safeFajr =
            (if fajr calculatedTimes = None then
               (if requiresPolarAdjustment (latitude coords) \<and> rule \<noteq> NoRule then
                  applyHighLatitudeRule (sunrise calculatedTimes)
                    \<lparr>pap_latitude = latitude coords, pap_angle = fajrAngle, pap_night = night,
                     pap_direction = Some (-1)\<rparr> rule
                else
                  polar_seasonAdjustedMorningTwilight
                    \<lparr>sap_latitude = latitude coords, sap_dayOfYear = dayOfYearValue,
                     sap_year = getFullYear rt d, sap_baseTime = sunrise calculatedTimes\<rparr>)
             else fajr calculatedTimes);
          safeIsha =
            (if isha calculatedTimes = None then
               (if requiresPolarAdjustment (latitude coords) \<and> rule \<noteq> NoRule
                   \<and> ishaAngle \<noteq> None \<and> ishaAngle \<noteq> Some 0 then
                  applyHighLatitudeRule (sunset calculatedTimes)
                    \<lparr>pap_latitude = latitude coords, pap_angle = the ishaAngle, pap_night = night,
                     pap_direction = Some 1\<rparr> rule
                else
                  polar_seasonAdjustedEveningTwilight
                    \<lparr>sap_latitude = latitude coords, sap_dayOfYear = dayOfYearValue,
                     sap_year = getFullYear rt d, sap_baseTime = sunset calculatedTimes\<rparr> General)
             else isha calculatedTimes);
          safeMaghrib = maghrib calculatedTimes
      in \<lparr>safe_fajr = safeFajr, safe_isha = safeIsha, safe_maghrib = safeMaghrib\<rparr>)"

subsection \<open>engine/calculator.ts: the orchestrator\<close>

record PrayerTimeConfig =
  cfg_method :: MethodCode
  cfg_location :: Coordinates
  cfg_timezone :: "string option"
  cfg_date :: "Date option"
  cfg_fajr :: "real option"
  cfg_isha :: "AngleOrInterval option"
  cfg_maghrib :: "AngleOrInterval option"
  cfg_midnight :: "MidnightMode option"
  cfg_shafaq :: "Shafaq option"
  cfg_asrSchool :: "AsrSchool option"
  cfg_highLatitudeRule :: "HighLatitudeRule option"
  cfg_elevation :: "real option"
  cfg_adjustments :: "(PrayerName \<times> real) list option"
  cfg_iterations :: "real option"

record CalculationOptions =
  validateInput :: bool
  applyAdjustments :: bool
  handlePolarRegions :: bool

definition DEFAULT_OPTIONS :: CalculationOptions where
  "DEFAULT_OPTIONS = \<lparr>validateInput = True, applyAdjustments = True, handlePolarRegions = True\<rparr>"

record CalculationResult =
  cr_times :: PrayerTimes
  cr_isValid :: bool
  cr_warnings :: "message list"

text \<open>
  The two calls of the orchestrator into other modules are fields of a record, so that a
  statement about the orchestrator can hold for every validation: \<open>validateConfig\<close>
  (methods/validation.ts) as the list of the messages of its errors, empty for a valid
  configuration, and \<open>checkPolarConditions\<close> (engine/solar.ts, a module that is not among
  the sources) as polar day, polar night and the reason.  \<open>sourceCollaborators\<close> below
  fills the first field with the function of methods/validation.ts.
\<close>

record Collaborators =
  validateConfig :: "PrayerTimeConfig \<Rightarrow> message list"
  checkPolarConditions :: "int \<Rightarrow> Coordinates \<Rightarrow> bool \<times> bool \<times> string"

text \<open>\<open>validateCoordinates\<close> and \<open>parseCoordinates\<close> on a pair of numbers.\<close>

definition isValidLatitude :: "real \<Rightarrow> bool" where
  "isValidLatitude lat \<longleftrightarrow> lat \<ge> -90 \<and> lat \<le> 90"

definition isValidLongitude :: "real \<Rightarrow> bool" where
  "isValidLongitude lng \<longleftrightarrow> lng \<ge> -180 \<and> lng \<le> 180"

definition parseCoordinates :: "Coordinates \<Rightarrow> message + Coordinates" where
  "parseCoordinates coords =
     (if \<not> isValidLatitude (latitude coords) then
        Inl [Lit ''Invalid latitude: '', Num (latitude coords),
             Lit ''. Must be between -90 and 90 degrees'']
      else if \<not> isValidLongitude (longitude coords) then
        Inl [Lit ''Invalid longitude: '', Num (longitude coords),
             Lit ''. Must be between -180 and 180 degrees'']
      else Inr \<lparr>latitude = latitude coords, longitude = longitude coords\<rparr>)"

text \<open>\<open>sanitizeConfig\<close>: of its normalisations only the rounding of \<open>iterations\<close> changes
  a value of the model (coordinates are already numbers; the trimmed time zone is only
  tested for being non-empty).\<close>

definition sanitizeConfig :: "PrayerTimeConfig \<Rightarrow> PrayerTimeConfig" where
  "sanitizeConfig config =
     config\<lparr>cfg_iterations := map_option (\<lambda>i. of_int (Math_round i)) (cfg_iterations config)\<rparr>"

subsection \<open>methods/validation.ts\<close>
















subsection \<open>engine/calculator.ts: the orchestrator, continued\<close>

definition applyParameterOverrides :: "MethodParams \<Rightarrow> PrayerTimeConfig \<Rightarrow> MethodParams" where
  "applyParameterOverrides baseParams config =
     (let p1 = (case cfg_fajr config of None \<Rightarrow> baseParams | Some v \<Rightarrow> baseParams\<lparr>mp_fajr := v\<rparr>);
          p2 = (case cfg_isha config of None \<Rightarrow> p1 | Some v \<Rightarrow> p1\<lparr>mp_isha := v\<rparr>);
          p3 = (case cfg_maghrib config of None \<Rightarrow> p2 | Some v \<Rightarrow> p2\<lparr>mp_maghrib := Some v\<rparr>);
          p4 = (case cfg_midnight config of None \<Rightarrow> p3 | Some v \<Rightarrow> p3\<lparr>mp_midnight := v\<rparr>);
          p5 = (case cfg_shafaq config of None \<Rightarrow> p4 | Some v \<Rightarrow> p4\<lparr>mp_shafaq := Some v\<rparr>)
      in p5)"

text \<open>\<open>createCalculationContext\<close>, called by the orchestrator without an \<open>asrSchool\<close>
  option, so the context has the school \<open>Standard\<close>.\<close>

definition createCalculationContext ::
  "int \<Rightarrow> Coordinates \<Rightarrow> MethodParams \<Rightarrow> MethodCode \<Rightarrow> real \<Rightarrow> HighLatitudeRule \<Rightarrow> real
   \<Rightarrow> CalculationContext" where
  "createCalculationContext d coords mp code elev rule iters =
     \<lparr>ctx_date = d, coordinates = coords, methodParams = mp, methodCode = Some code,
      elevation = elev, highLatitudeRule = rule, asrSchool = StandardAsr, iterations = iters\<rparr>"

definition applyHighLatitudeAdjustments ::
  "Runtime \<Rightarrow> PrayerTimes \<Rightarrow> CalculationContext \<Rightarrow> PrayerTimeConfig \<Rightarrow> PrayerTimes" where
  "applyHighLatitudeAdjustments rt tms ctx config =
     (let rule = (case cfg_highLatitudeRule config of None \<Rightarrow> NightMiddle | Some r \<Rightarrow> r);
          safeTimes = getSafePrayerTimes rt tms (coordinates ctx) (ctx_date ctx)
                        (mp_fajr (methodParams ctx))
                        (case mp_isha (methodParams ctx) of Angle v \<Rightarrow> Some v | Interval v \<Rightarrow> None)
                        rule
      in tms\<lparr>fajr := safe_fajr safeTimes, isha := safe_isha safeTimes,
             maghrib := safe_maghrib safeTimes\<rparr>)"

text \<open>\<open>x % 1\<close> of JavaScript keeps the sign of \<open>x\<close>.\<close>

definition js_mod1 :: "real \<Rightarrow> real" where
  "js_mod1 x = x - of_int (if 0 \<le> x then \<lfloor>x\<rfloor> else \<lceil>x\<rceil>)"

definition calculateHanafiAsr :: "Runtime \<Rightarrow> Coordinates \<Rightarrow> int \<Rightarrow> Date" where
  "calculateHanafiAsr rt coords d =
     (let solarTime = solarTimeOf rt d coords
      in case afternoon solarTime 2 of
           None \<Rightarrow> None
         | Some hanafiAsrTime \<Rightarrow>
             (let hours = \<lfloor>hanafiAsrTime\<rfloor>;
                  minutes = js_mod1 hanafiAsrTime * 60;
                  seconds = js_mod1 minutes * 60
              in Some (utcMidnight d + hours * 3600000 + \<lfloor>minutes\<rfloor> * 60000
                       + \<lfloor>seconds\<rfloor> * 1000)))"

definition convertTimesToTimezone :: "PrayerTimes \<Rightarrow> string \<Rightarrow> PrayerTimes" where
  "convertTimesToTimezone tms timezoneName =
     \<lparr>fajr = convertToTimezone (fajr tms) timezoneName,
      sunrise = convertToTimezone (sunrise tms) timezoneName,
      dhuhr = convertToTimezone (dhuhr tms) timezoneName,
      asr = convertToTimezone (asr tms) timezoneName,
      sunset = convertToTimezone (sunset tms) timezoneName,
      maghrib = convertToTimezone (maghrib tms) timezoneName,
      isha = convertToTimezone (isha tms) timezoneName\<rparr>"

definition createFallbackTimes :: "Runtime \<Rightarrow> int \<Rightarrow> PrayerTimes" where
  "createFallbackTimes rt d =
     (let baseDate = Some (startOfLocalDay rt d)
      in \<lparr>fajr = addMinutes baseDate (5 * 60),
          sunrise = addMinutes baseDate (6 * 60),
          dhuhr = addMinutes baseDate (12 * 60),
          asr = addMinutes baseDate (15 * 60),
          sunset = addMinutes baseDate (18 * 60),
          maghrib = addMinutes baseDate (18 * 60 + 5),
          isha = addMinutes baseDate (19 * 60 + 30)\<rparr>)"

text \<open>
  The \<open>try\<close> block of \<open>calculatePrayerTimes\<close>: \<open>Inl\<close> is the message of a thrown
  \<open>Error\<close>.  The steps after the engine call do not throw; the first two of them, the
  high-latitude step and the Asr school, are \<open>timesBeforeUserAdjustments\<close>.
\<close>

definition timesBeforeUserAdjustments ::
  "Runtime \<Rightarrow> CalculationOptions \<Rightarrow> PrayerTimeConfig \<Rightarrow> CalculationContext \<Rightarrow> IterativeResult
   \<Rightarrow> PrayerTimes" where
  "timesBeforeUserAdjustments rt opts sanitizedConfig ctx precisionResult =
     (let times0 = ir_value precisionResult;
          times1 = (if handlePolarRegions opts
                       \<and> requiresPolarAdjustment (latitude (coordinates ctx))
                    then applyHighLatitudeAdjustments rt times0 ctx sanitizedConfig else times0);
          times2 = (if cfg_asrSchool sanitizedConfig = Some Hanafi
                    then times1\<lparr>asr := calculateHanafiAsr rt (coordinates ctx) (ctx_date ctx)\<rparr>
                    else times1)
      in times2)"

definition finishCalculation ::
  "Runtime \<Rightarrow> CalculationOptions \<Rightarrow> PrayerTimeConfig \<Rightarrow> CalculationContext \<Rightarrow> message list
   \<Rightarrow> IterativeResult \<Rightarrow> CalculationResult" where
  "finishCalculation rt opts sanitizedConfig ctx warnings0 precisionResult =
     (let warnings1 = (if \<not> ir_converged precisionResult then
                         warnings0 @ [[Lit ''Calculation did not fully converge, results may have reduced accuracy'']]
                       else warnings0);
          times2 = timesBeforeUserAdjustments rt opts sanitizedConfig ctx precisionResult;
          times3 = (case cfg_adjustments sanitizedConfig of
                      Some adjustments \<Rightarrow>
                        (if applyAdjustments opts then applyUserAdjustments times2 adjustments
                         else times2)
                    | None \<Rightarrow> times2);
          times4 = (case cfg_timezone sanitizedConfig of
                      Some tz \<Rightarrow> (if tz \<noteq> [] then convertTimesToTimezone times3 tz else times3)
                    | None \<Rightarrow> times3);
          validation = validateCalculationResults times4 ctx;
          warnings2 = (if \<not> vo_isValid validation then warnings1 @ vo_issues validation
                       else warnings1)
      in \<lparr>cr_times = times4, cr_isValid = vo_isValid validation, cr_warnings = warnings2\<rparr>)"

fun joinMessages :: "string \<Rightarrow> message list \<Rightarrow> message" where
  "joinMessages sep [] = []"
| "joinMessages sep [m] = m"
| "joinMessages sep (m # ms) = m @ Lit sep # joinMessages sep ms"

definition calculatePrayerTimes_try ::
  "Runtime \<Rightarrow> Collaborators \<Rightarrow> PrayerTimeConfig \<Rightarrow> int \<Rightarrow> CalculationOptions
   \<Rightarrow> message + CalculationResult" where
  "calculatePrayerTimes_try rt co config calculationDate opts =
     (if validateInput opts \<and> validateConfig co config \<noteq> [] then
        Inl (Lit ''Configuration validation failed: '' # joinMessages '', '' (validateConfig co config))
      else
        (let sanitizedConfig = sanitizeConfig config
         in case parseCoordinates (cfg_location sanitizedConfig) of
              Inl e \<Rightarrow> Inl e
            | Inr coords \<Rightarrow>
               (case getMethodParams (cfg_method sanitizedConfig) of
                  Inl e \<Rightarrow> Inl e
                | Inr baseMethodParams \<Rightarrow>
                   (let mp = applyParameterOverrides baseMethodParams sanitizedConfig;
                        ctx = createCalculationContext calculationDate coords mp
                                (cfg_method sanitizedConfig)
                                (case cfg_elevation sanitizedConfig of None \<Rightarrow> 0 | Some e \<Rightarrow> e)
                                (case cfg_highLatitudeRule sanitizedConfig of
                                   None \<Rightarrow> NightMiddle | Some r \<Rightarrow> r)
                                (case cfg_iterations sanitizedConfig of None \<Rightarrow> 1 | Some i \<Rightarrow> i)
                    in case checkPolarConditions co calculationDate coords of
                         (isPolarDay, isPolarNight, reason) \<Rightarrow>
                           (if (isPolarDay \<or> isPolarNight) \<and> \<not> handlePolarRegions opts then
                              Inl [Lit ''Cannot calculate prayer times in polar regions: '',
                                   Lit reason]
                            else
                              Inr (finishCalculation rt opts sanitizedConfig ctx
                                     (if isPolarDay \<or> isPolarNight
                                      then [[Lit ''Polar region detected: '', Lit reason]] else [])
                                     (calculatePrecisePrayerTimes rt ctx)))))))"

text \<open>\<open>calculatePrayerTimes\<close> with its \<open>catch\<close>.\<close>

definition calculatePrayerTimes ::
  "Runtime \<Rightarrow> Collaborators \<Rightarrow> PrayerTimeConfig \<Rightarrow> int \<Rightarrow> CalculationOptions \<Rightarrow> CalculationResult" where
  "calculatePrayerTimes rt co config calculationDate opts =
     (case calculatePrayerTimes_try rt co config calculationDate opts of
        Inr result \<Rightarrow> result
      | Inl errorMessage \<Rightarrow>
          \<lparr>cr_times = createFallbackTimes rt calculationDate,
           cr_isValid = False,
           cr_warnings = [Lit ''Calculation failed: '' # errorMessage]\<rparr>)"

subsection \<open>extensions/sunnah-times.ts\<close>

text \<open>
  \<open>roundToNearestMinute\<close> works on the local time of the process: \<open>setSeconds\<close>,
  \<open>getSeconds\<close>, \<open>getMinutes\<close> and \<open>setMinutes\<close>.  The time zone of the process enters as
  the function \<open>LocalTZA\<close> of ECMAScript: \<open>localTZA t True\<close> is the offset of local time
  from UTC, in milliseconds, at the time value \<open>t\<close>, and \<open>localTZA t False\<close> is the offset
  for the local time value \<open>t\<close>, the offset before the transition when that local time is
  repeated or skipped.  The setters build the new local time value and convert it back.
\<close>

record TimeZone =
  localTZA :: "int \<Rightarrow> bool \<Rightarrow> int"

definition LocalTime :: "TimeZone \<Rightarrow> int \<Rightarrow> int" where
  "LocalTime tz t = t + localTZA tz t True"

definition UTC_of :: "TimeZone \<Rightarrow> int \<Rightarrow> int" where
  "UTC_of tz t = t - localTZA tz t False"

definition getSeconds :: "TimeZone \<Rightarrow> int \<Rightarrow> int" where
  "getSeconds tz t = (LocalTime tz t div 1000) mod 60"

definition getMinutes :: "TimeZone \<Rightarrow> int \<Rightarrow> int" where
  "getMinutes tz t = (LocalTime tz t div 60000) mod 60"

definition setSeconds :: "TimeZone \<Rightarrow> int \<Rightarrow> int \<Rightarrow> int \<Rightarrow> int" where
  "setSeconds tz t sec ms =
     (let local = LocalTime tz t;
          newLocal = local - local mod 60000 + sec * 1000 + ms
      in UTC_of tz newLocal)"

definition setMinutes :: "TimeZone \<Rightarrow> int \<Rightarrow> int \<Rightarrow> int" where
  "setMinutes tz t minute =
     (let local = LocalTime tz t;
          newLocal = local - ((local div 60000) mod 60) * 60000 + minute * 60000
      in UTC_of tz newLocal)"

definition roundToNearestMinute :: "TimeZone \<Rightarrow> Date \<Rightarrow> Date" where
  "roundToNearestMinute tz date =
     (case date of None \<Rightarrow> None
      | Some t \<Rightarrow>
         (let rounded = setSeconds tz t 0 0
          in if getSeconds tz t \<ge> 30
             then Some (setMinutes tz rounded (getMinutes tz rounded + 1))
             else Some rounded))"

record SunnahTimes =
  middleOfNight :: Date
  lastThirdOfNight :: Date
  firstThirdOfNight :: Date
  duhaStart :: Date
  duhaEnd :: Date
  nightDuration :: "int option"

text \<open>\<open>new Date(d.getTime() + x)\<close> for a Date \<open>d\<close> and a number \<open>x\<close> that may be \<open>NaN\<close>.\<close>

definition dateAfter :: "Date \<Rightarrow> real option \<Rightarrow> Date" where
  "dateAfter d x = (case (d, x) of (Some t, Some y) \<Rightarrow> newDate (of_int t + y) | _ \<Rightarrow> None)"

text \<open>
  \<open>calculateSunnahTimes\<close> calls \<open>calculatePrayerTimes\<close> for the date and for the next
  day; \<open>sunnahTimesOf\<close> is the function after these two calls, on their results.
\<close>

definition sunnahTimesOf ::
  "TimeZone \<Rightarrow> CalculationResult \<Rightarrow> CalculationResult \<Rightarrow> message + SunnahTimes" where
  "sunnahTimesOf tz todayResult tomorrowResult =
     (if \<not> cr_isValid todayResult then
        Inl (Lit ''Cannot calculate Sunnah times: '' # joinMessages '', '' (cr_warnings todayResult))
      else
       (let todayTimes = cr_times todayResult
        in if \<not> cr_isValid tomorrowResult then
             Inl (Lit ''Cannot calculate tomorrow's Fajr: ''
                  # joinMessages '', '' (cr_warnings tomorrowResult))
           else
            (let tomorrowFajr = fajr (cr_times tomorrowResult);
                 nightDurationMs =
                   (case (tomorrowFajr, maghrib todayTimes) of
                      (Some f, Some m) \<Rightarrow> Some (of_int (f - m) :: real) | _ \<Rightarrow> None);
                 nightDurationMinutes = map_option (\<lambda>n. n / (1000 * 60)) nightDurationMs;
                 firstThirdDuration = map_option (\<lambda>n. n / 3) nightDurationMs;
                 middlePointDuration = map_option (\<lambda>n. n / 2) nightDurationMs;
                 lastThirdStart = map_option (\<lambda>n. n * (2 / 3)) nightDurationMs;
                 firstThird = dateAfter (maghrib todayTimes) firstThirdDuration;
                 middle = dateAfter (maghrib todayTimes) middlePointDuration;
                 lastThird = dateAfter (maghrib todayTimes) lastThirdStart;
                 duhaStartD = dateAfter (sunrise todayTimes) (Some (15 * 60 * 1000));
                 duhaEndD = dateAfter (dhuhr todayTimes) (Some (- (15 * 60 * 1000)))
             in Inr \<lparr>middleOfNight = roundToNearestMinute tz middle,
                     lastThirdOfNight = roundToNearestMinute tz lastThird,
                     firstThirdOfNight = roundToNearestMinute tz firstThird,
                     duhaStart = roundToNearestMinute tz duhaStartD,
                     duhaEnd = roundToNearestMinute tz duhaEndD,
                     nightDuration = map_option Math_round nightDurationMinutes\<rparr>)))"

definition calculateSunnahTimes ::
  "Runtime \<Rightarrow> TimeZone \<Rightarrow> Collaborators \<Rightarrow> PrayerTimeConfig \<Rightarrow> int \<Rightarrow> message + SunnahTimes" where
  "calculateSunnahTimes rt tz co config d =
     sunnahTimesOf tz (calculatePrayerTimes rt co config d DEFAULT_OPTIONS)
       (calculatePrayerTimes rt co config (nextDay rt d) DEFAULT_OPTIONS)"

text \<open>
  The rounding as the specification words it: the whole minute nearest to a time value, a
  tie of 30 seconds going up.
\<close>

definition spec_nearestMinute :: "int \<Rightarrow> int" where
  "spec_nearestMinute t = 60000 * ((t + 30000) div 60000)"

subsection \<open>api/prayer-times.ts\<close>

datatype DateInput = Undefined | DateObject Date | DateString string | DateNumber real

text \<open>
  The clock and the date parser of the runtime: \<open>now\<close> is \<open>new Date()\<close>,
  \<open>parseDateString s\<close> is \<open>new Date(s)\<close>.  A number beyond \<open>8.64e15\<close> in absolute value
  gives an Invalid Date.
\<close>

record Clock =
  now :: int
  parseDateString :: "string \<Rightarrow> Date"

definition quoted :: "string \<Rightarrow> string" where
  "quoted s = [CHR 0x22] @ s @ [CHR 0x22]"

definition parseDate :: "Runtime \<Rightarrow> Clock \<Rightarrow> DateInput \<Rightarrow> message + int" where
  "parseDate rt clock date =
     (case date of
        Undefined \<Rightarrow> Inr (now clock)
      | DateObject d \<Rightarrow>
          (case d of
             None \<Rightarrow> Inl [Lit ''Invalid Date object provided. Please ensure the date is properly constructed.'']
           | Some t \<Rightarrow> Inr t)
      | DateString s \<Rightarrow>
          (if s = [] then Inr (now clock)
           else (case parseDateString clock s of
                   None \<Rightarrow> Inl [Lit (''Invalid date string: '' @ [CHR 0x22]), Lit s,
                                Lit ([CHR 0x22] @ ''. Please use a valid date format like ''
                                     @ quoted ''2024-01-15'' @ '' or ''
                                     @ quoted ''2024-01-15T12:00:00Z'' @ ''.'')]
                 | Some t \<Rightarrow> Inr t))
      | DateNumber n \<Rightarrow>
          (if n = 0 then Inr (now clock)
           else if \<bar>n\<bar> > 8640000000000000 then
             Inl [Lit ''Invalid timestamp: '', Num n,
                  Lit ''. Please provide a valid timestamp in milliseconds.'']
           else
             (let t = (if 0 \<le> n then \<lfloor>n\<rfloor> else \<lceil>n\<rceil>);
                  year = getFullYear rt t
              in if year < 1900 \<or> year > 2200 then
                   Inl [Lit ''Date timestamp appears to be invalid (year: '', Num (of_int year),
                        Lit ''). Please provide a timestamp in milliseconds since Unix epoch.'']
                 else Inr t)))"

text \<open>
  \<open>PrayerTimeCalculator.calculate(date)\<close>, the method of an instance with the
  configuration \<open>config\<close>: the \<open>try\<close> block, and the \<open>catch\<close> that throws again, either
  the same error or a wrapped one.  \<open>newline\<close> is the line feed and \<open>bullet\<close> the
  character U+2022 of the message.
\<close>

definition newline :: string where
  "newline = [CHR 0x0A]"

definition bullet :: string where
  "bullet = [CHR 0xE2, CHR 0x80, CHR 0xA2]"

definition calculate_try ::
  "Runtime \<Rightarrow> Collaborators \<Rightarrow> Clock \<Rightarrow> PrayerTimeConfig \<Rightarrow> DateInput \<Rightarrow> message + PrayerTimes" where
  "calculate_try rt co clock config date =
     (case parseDate rt clock date of
        Inl e \<Rightarrow> Inl e
      | Inr calculationDate \<Rightarrow>
          (let result = calculatePrayerTimes rt co config calculationDate DEFAULT_OPTIONS
           in if \<not> cr_isValid result then
                Inl (Lit ''Prayer time calculation failed: ''
                     # joinMessages ''; '' (cr_warnings result)
                     @ [Lit (newline @ newline @ ''This may occur due to:'' @ newline
                             @ ''  '' @ bullet
                             @ '' Extreme latitude locations during certain seasons'' @ newline
                             @ ''  '' @ bullet @ '' Invalid date or timezone'' @ newline
                             @ ''  '' @ bullet
                             @ '' Calculation method incompatible with location''
                             @ newline @ newline
                             @ ''Try using a different high latitude rule or adjust your location/method.'')])
              else Inr (cr_times result)))"

definition calculate ::
  "Runtime \<Rightarrow> Collaborators \<Rightarrow> Clock \<Rightarrow> PrayerTimeConfig \<Rightarrow> DateInput \<Rightarrow> message + PrayerTimes" where
  "calculate rt co clock config date =
     (case calculate_try rt co clock config date of
        Inr tms \<Rightarrow> Inr tms
      | Inl errorMessage \<Rightarrow>
          (if msgIncludes errorMessage ''Prayer time calculation failed'' then Inl errorMessage
           else Inl (Lit ''Failed to calculate prayer times: '' # errorMessage
                     @ [Lit (newline @ newline
                             @ ''Please verify your configuration and try again.'')])))"



section \<open>Example data\<close>

text \<open>
  A context at latitude 30 and one at latitude 50, and a day of prayer times in order
  whose Fajr is 200 minutes before sunrise.
\<close>

definition contextAt :: "real \<Rightarrow> CalculationContext" where
  "contextAt lat =
     \<lparr>ctx_date = 0, coordinates = \<lparr>latitude = lat, longitude = 0\<rparr>,
      methodParams = standardMethod 18 (Angle 17), methodCode = Some MWL, elevation = 0,
      highLatitudeRule = NightMiddle, asrSchool = StandardAsr, iterations = 1\<rparr>"

definition longDawn :: PrayerTimes where
  "longDawn = \<lparr>fajr = Some 0, sunrise = Some 12000000, dhuhr = Some 30000000,
     asr = Some 40000000, sunset = Some 50000000, maghrib = Some 50060000,
     isha = Some 56000000\<rparr>"

text \<open>A day of three hours from sunrise to maghrib.\<close>

definition shortDay :: PrayerTimes where
  "shortDay = \<lparr>fajr = Some 0, sunrise = Some 3600000, dhuhr = Some 7200000,
     asr = Some 10800000, sunset = Some 14400000, maghrib = Some 14400000,
     isha = Some 18000000\<rparr>"


text \<open>
  Two time zones: UTC, and America/New_York around the end of daylight saving time on
  3 November 2024, when the clocks go from 02:00 back to 01:00 at 06:00 UTC (time value
  1730613600000); the local times from 01:00 to 02:00 of that day occur twice.
\<close>

definition utcZone :: TimeZone where
  "utcZone = \<lparr>localTZA = (\<lambda>t isUTC. 0)\<rparr>"

definition newYork :: TimeZone where
  "newYork =
     \<lparr>localTZA = (\<lambda>t isUTC.
        if isUTC then (if t < 1730613600000 then - 14400000 else - 18000000)
        else (if t < 1730613600000 - 14400000 then - 14400000 else - 18000000))\<rparr>"

text \<open>
  Valid results for New York on 2 and 3 November 2024: Maghrib at 21:51 UTC (17:51 local
  time), the next Fajr at 10:09 UTC (05:09 local time), a night of 738 minutes.
\<close>

definition autumnToday :: CalculationResult where
  "autumnToday =
     \<lparr>cr_times = \<lparr>fajr = Some 1730542140000, sunrise = Some 1730546820000,
        dhuhr = Some 1730565600000, asr = Some 1730575800000, sunset = Some 1730584200000,
        maghrib = Some 1730584260000, isha = Some 1730588880000\<rparr>,
      cr_isValid = True, cr_warnings = []\<rparr>"

definition autumnTomorrow :: CalculationResult where
  "autumnTomorrow =
     \<lparr>cr_times = \<lparr>fajr = Some 1730628540000, sunrise = Some 1730633340000,
        dhuhr = Some 1730652000000, asr = Some 1730662140000, sunset = Some 1730670540000,
        maghrib = Some 1730670600000, isha = Some 1730675220000\<rparr>,
      cr_isValid = True, cr_warnings = []\<rparr>"

text \<open>
  A runtime in the UTC time zone for 21 December 2023 at latitude 55 north, longitude 0:
  the sun rises at 08:30 and sets at 15:30 UTC, transit at 12:00:09.5.  The calendar
  functions are those of the year 2023; the solar coordinates of the object are not used
  by the examples.
\<close>

definition winterSolarTime :: SolarTime where
  "winterSolarTime =
     \<lparr>observer = \<lparr>latitude = 55, longitude = 0\<rparr>,
      solar = \<lparr>declination = -23.4, rightAscension = 269, apparentSiderealTime = 89\<rparr>,
      prevSolar = \<lparr>declination = -23.4, rightAscension = 268, apparentSiderealTime = 88\<rparr>,
      nextSolar = \<lparr>declination = -23.4, rightAscension = 270, apparentSiderealTime = 90\<rparr>,
      approxTransit = 1 / 2, transit = 86419 / 7200, st_sunrise = Some (17 / 2),
      st_sunset = Some (31 / 2)\<rparr>"

definition winterRuntime :: Runtime where
  "winterRuntime =
     \<lparr>solarTimeOf = (\<lambda>d c. winterSolarTime),
      getFullYear = (\<lambda>d. 2023),
      startOfYear = (\<lambda>y. 1672444800000),
      nextDay = (\<lambda>d. d + 86400000),
      startOfLocalDay = (\<lambda>d. d - d mod 86400000)\<rparr>"

definition winterDate :: int where
  "winterDate = 1703116800000"

text \<open>Collaborators that accept every configuration and see no polar day.\<close>

definition acceptingCollaborators :: Collaborators where
  "acceptingCollaborators =
     \<lparr>validateConfig = (\<lambda>c. []), checkPolarConditions = (\<lambda>d c. (False, False, []))\<rparr>"






definition configOf :: "MethodCode \<Rightarrow> real \<Rightarrow> PrayerTimeConfig" where
  "configOf method lat =
     \<lparr>cfg_method = method, cfg_location = \<lparr>latitude = lat, longitude = 0\<rparr>,
      cfg_timezone = None, cfg_date = None, cfg_fajr = None, cfg_isha = None, cfg_maghrib = None,
      cfg_midnight = None, cfg_shafaq = None, cfg_asrSchool = None,
      cfg_highLatitudeRule = None, cfg_elevation = None, cfg_adjustments = None,
      cfg_iterations = None\<rparr>"




text \<open>
  The MWL method at latitude 30 with a user adjustment of half a minute for Dhuhr, and
  its context.
\<close>

definition halfMinuteConfig :: PrayerTimeConfig where
  "halfMinuteConfig = (configOf MWL 30)\<lparr>cfg_adjustments := Some [(Dhuhr, 1 / 2)]\<rparr>"

definition mwlContext :: CalculationContext where
  "mwlContext =
     createCalculationContext winterDate \<lparr>latitude = 30, longitude = 0\<rparr>
       ((standardMethod 18 (Angle 17))\<lparr>mp_adjustments := adjustmentsOf [(Dhuhr, 1)]\<rparr>)
       MWL 0 NightMiddle 1"






section \<open>Facts about the time helpers\<close>

lemma newDate_of_int [simp]: "newDate (of_int k) = Some k"
  by (simp add: newDate_def)

lemma addMinutes_whole:
  assumes "minutes * 60000 = of_int k"
  shows "addMinutes (Some t) minutes = Some (t + k)"
proof -
  have "of_int t + minutes * 60 * 1000 = (of_int (t + k) :: real)"
    using assms by simp
  then show ?thesis
    unfolding addMinutes_def by (simp only: newDate_of_int option.case)
qed

lemma addSeconds_whole: "addSeconds (Some t) (of_int k) = Some (t + k * 1000)"
proof -
  have "of_int t + of_int k * 1000 = (of_int (t + k * 1000) :: real)" by simp
  then show ?thesis
    unfolding addSeconds_def by (simp only: newDate_of_int option.case)
qed

lemma getField_setField_same: "getField p (setField p v t) = v"
  by (cases p) simp_all

lemma getField_setField_other: "p \<noteq> q \<Longrightarrow> getField q (setField p v t) = getField q t"
  by (cases p; cases q) simp_all

lemma sunset_setField: "sunset (setField p v t) = sunset t"
  by (cases p) simp_all

lemma applyUserAdjustments_absent:
  "q \<notin> fst ` set adj \<Longrightarrow> getField q (applyUserAdjustments t adj) = getField q t"
proof (induction adj arbitrary: t)
  case Nil
  then show ?case by simp
next
  case (Cons e adj)
  obtain p a where e: "e = (p, a)" by (cases e)
  from Cons.prems have pq: "p \<noteq> q" and rest: "q \<notin> fst ` set adj"
    by (auto simp: e)
  show ?case
    using Cons.IH[OF rest] pq by (simp add: e getField_setField_other)
qed

lemma applyUserAdjustments_sunrise:
  "sunrise (applyUserAdjustments t adj) = sunrise t"
proof (induction adj arbitrary: t)
  case Nil
  then show ?case by simp
next
  case (Cons e adj)
  obtain p a where e: "e = (p, a)" by (cases e)
  have "p \<noteq> Sunrise \<Longrightarrow> sunrise (setField p v t) = sunrise t" for v
    by (cases p) simp_all
  then show ?case
    using Cons.IH by (simp add: e)
qed

lemma applyUserAdjustments_sunset:
  "sunset (applyUserAdjustments t adj) = sunset t"
proof (induction adj arbitrary: t)
  case Nil
  then show ?case by simp
next
  case (Cons e adj)
  obtain p a where e: "e = (p, a)" by (cases e)
  show ?case
    using Cons.IH by (simp add: e sunset_setField)
qed

lemma applyUserAdjustments_present:
  "distinct (map fst adj) \<Longrightarrow> (p, a) \<in> set adj \<Longrightarrow> p \<noteq> Sunrise \<Longrightarrow>
   getField p (applyUserAdjustments t adj) = addMinutes (getField p t) a"
proof (induction adj arbitrary: t)
  case Nil
  then show ?case by simp
next
  case (Cons e adj)
  obtain p' a' where e: "e = (p', a')" by (cases e)
  show ?case
  proof (cases "(p, a) = e")
    case True
    then have pe: "p' = p" "a' = a" by (simp_all add: e)
    from Cons.prems(1) have "p \<notin> fst ` set adj" by (simp add: e pe)
    then show ?thesis
      using Cons.prems(3)
      by (simp add: e pe applyUserAdjustments_absent getField_setField_same)
  next
    case False
    with Cons.prems(2) have mem: "(p, a) \<in> set adj" by simp
    from Cons.prems(1) have d: "distinct (map fst adj)" and "p' \<notin> fst ` set adj"
      by (simp_all add: e)
    with mem have ne: "p' \<noteq> p" by force
    show ?thesis
      using Cons.IH[OF d mem Cons.prems(3)] ne
      by (simp add: e getField_setField_other)
  qed
qed

section \<open>User adjustments: frame and effect\<close>

text \<open>
  Claim C10.  For every prayer-times record and every adjustments object (its entries have
  pairwise different keys), \<open>applyUserAdjustments\<close> leaves \<open>sunrise\<close> unchanged, also
  when the object has a \<open>sunrise\<close> entry; every other prayer field that has an entry
  becomes \<open>addMinutes\<close> of its old value and the entry (for a valid old value that is the
  old value plus the given minutes, exactly so whenever the minutes are a whole number of
  milliseconds); every field without an entry, and \<open>sunset\<close>, is unchanged.
\<close>

theorem applyUserAdjustments_frame:
  assumes "distinct (map fst adj)"
  shows "sunrise (applyUserAdjustments t adj) = sunrise t
       \<and> sunset (applyUserAdjustments t adj) = sunset t
       \<and> (\<forall>p a. (p, a) \<in> set adj \<and> p \<noteq> Sunrise \<longrightarrow>
             getField p (applyUserAdjustments t adj) = addMinutes (getField p t) a
           \<and> (\<forall>k t0. a * 60000 = of_int k \<and> getField p t = Some t0 \<longrightarrow>
                 getField p (applyUserAdjustments t adj) = Some (t0 + k)))
       \<and> (\<forall>q. q \<notin> fst ` set adj \<longrightarrow>
             getField q (applyUserAdjustments t adj) = getField q t)"
proof (intro conjI allI impI)
  show "sunrise (applyUserAdjustments t adj) = sunrise t"
    by (rule applyUserAdjustments_sunrise)
next
  show "sunset (applyUserAdjustments t adj) = sunset t"
    by (rule applyUserAdjustments_sunset)
next
  fix p a
  assume h: "(p, a) \<in> set adj \<and> p \<noteq> Sunrise"
  then show eq: "getField p (applyUserAdjustments t adj) = addMinutes (getField p t) a"
    using applyUserAdjustments_present[OF assms] by blast
  fix k t0
  assume "a * 60000 = of_int k \<and> getField p t = Some t0"
  then show "getField p (applyUserAdjustments t adj) = Some (t0 + k)"
    using eq addMinutes_whole by simp
next
  fix q
  assume "q \<notin> fst ` set adj"
  then show "getField q (applyUserAdjustments t adj) = getField q t"
    by (rule applyUserAdjustments_absent)
qed

theorem applyUserAdjustments_frame_witness:
  "distinct (map fst [(Sunrise, 5::real), (Fajr, 2)])
   \<and> sunrise (applyUserAdjustments
        \<lparr>fajr = Some 0, sunrise = Some 60000, dhuhr = Some 120000, asr = Some 180000,
         sunset = Some 240000, maghrib = Some 300000, isha = Some 360000\<rparr>
        [(Sunrise, 5), (Fajr, 2)]) = Some 60000
   \<and> fajr (applyUserAdjustments
        \<lparr>fajr = Some 0, sunrise = Some 60000, dhuhr = Some 120000, asr = Some 180000,
         sunset = Some 240000, maghrib = Some 300000, isha = Some 360000\<rparr>
        [(Sunrise, 5), (Fajr, 2)]) = Some 120000"
proof -
  let ?t = "\<lparr>fajr = Some 0, sunrise = Some 60000, dhuhr = Some 120000, asr = Some 180000,
         sunset = Some 240000, maghrib = Some 300000, isha = Some 360000\<rparr>"
  let ?adj = "[(Sunrise, 5::real), (Fajr, 2)]"
  have d: "distinct (map fst ?adj)" by simp
  note f = applyUserAdjustments_frame[OF d, of ?t]
  from f have s: "sunrise (applyUserAdjustments ?t ?adj) = Some 60000"
    by simp
  from f have g: "(Fajr, 2) \<in> set ?adj \<and> Fajr \<noteq> Sunrise \<longrightarrow>
      (\<forall>k t0. (2::real) * 60000 = of_int k \<and> getField Fajr ?t = Some t0 \<longrightarrow>
         getField Fajr (applyUserAdjustments ?t ?adj) = Some (t0 + k))"
    by blast
  have "(2::real) * 60000 = of_int 120000 \<and> getField Fajr ?t = Some 0" by simp
  with g have "getField Fajr (applyUserAdjustments ?t ?adj) = Some (0 + 120000)"
    by (metis PrayerName.distinct(1) list.set_intros(1,2))
  with d s show ?thesis by simp
qed

section \<open>Nutation in longitude\<close>

lemma sin_d_90: "sin_d 90 = 1"
  by (simp add: sin_d_def dtr_def)

lemma sin_d_0: "sin_d 0 = 0"
  by (simp add: sin_d_def dtr_def)

text \<open>
  Claim C5 (as amended).  For every Julian century, solar longitude \<open>L0\<close>, lunar longitude
  \<open>Lp\<close> and ascending node \<open>\<Omega>\<close>, \<open>nutationInLongitude\<close> is
  \<open>(\<minus>17.2 sin \<Omega> \<minus> 1.32 sin 2L0 \<minus> 0.23 sin 2Lp + 0.21 sin 2\<Omega>) / 3600\<close> degrees: the signs of
  the four terms are \<open>\<minus>, \<minus>, \<minus>, +\<close>.
\<close>

theorem nutationInLongitude_formula:
  "nutationInLongitude T L0 Lp Omega =
     (- 17.2 * sin_d Omega - 1.32 * sin_d (2 * L0) - 0.23 * sin_d (2 * Lp)
      + 0.21 * sin_d (2 * Omega)) / 3600"
  by (simp add: nutationInLongitude_def Let_def field_simps)

text \<open>
  The formula of the claim as written, with signs \<open>\<minus>, +, +, +\<close>, is not what the function
  computes: at \<open>L0 = 45\<close>, \<open>Lp = 0\<close>, \<open>\<Omega> = 0\<close> the function gives \<open>\<minus>1.32/3600\<close> and the
  written formula gives \<open>+1.32/3600\<close>.
\<close>

theorem nutationInLongitude_signs_counterexample:
  "nutationInLongitude 0 45 0 0 = - 1.32 / 3600
   \<and> (- 17.2 * sin_d 0 + 1.32 * sin_d (2 * 45) + 0.23 * sin_d (2 * 0)
        + 0.21 * sin_d (2 * 0)) / 3600 = 1.32 / 3600
   \<and> nutationInLongitude 0 45 0 0 \<noteq>
       (- 17.2 * sin_d 0 + 1.32 * sin_d (2 * 45) + 0.23 * sin_d (2 * 0)
        + 0.21 * sin_d (2 * 0)) / 3600"
  by (simp add: nutationInLongitude_def Let_def sin_d_90 sin_d_0)

section \<open>The two copies of the evening twilight\<close>

lemma seasonBlend_91: "seasonBlend a b c d 91 = b"
  by (simp add: seasonBlend_def)

lemma daysSinceSolstice_81: "daysSinceSolstice 81 2023 55 = 91"
  by (simp add: daysSinceSolstice_def isLeapYear_def)

text \<open>
  Claim C6.  The engine copy (engine/astronomical.ts) uses the Abyad coefficients for
  shafaq General, the copy in utils/polar.ts does not: at latitude 55, day of year 81 of
  2023 and base time 0 the engine copy returns 4930 seconds after the base time and the
  utils/polar copy returns 4623 seconds.
\<close>

theorem seasonAdjustedEveningTwilight_copies_differ:
  "seasonAdjustedEveningTwilight 55 81 2023 (Some 0) General = Some 4930000
   \<and> polar_seasonAdjustedEveningTwilight
        \<lparr>sap_latitude = 55, sap_dayOfYear = 81, sap_year = 2023, sap_baseTime = Some 0\<rparr>
        General = Some 4623000"
proof -
  have e: "eveningCoefficients General 55 = (100.6, 82.16, 111.84, 156.84)"
    by (simp add: eveningCoefficients_def)
  have p: "polar_eveningCoefficients General 55 = (100.6, 77.05, 65.79, 81.14)"
    by (simp add: polar_eveningCoefficients_def)
  have r1: "Math_round (82.16 * 60.0) = 4930"
    by (simp add: Math_round_def)
  have r2: "Math_round (77.05 * 60.0) = 4623"
    by (simp add: Math_round_def)
  show ?thesis
    by (simp only: seasonAdjustedEveningTwilight_def polar_seasonAdjustedEveningTwilight_def
        SeasonAdjustmentParams.simps Let_def e p prod.case daysSinceSolstice_81 seasonBlend_91
        r1 r2 addSeconds_whole) simp
qed

lemma engine_general_is_abyad:
  "eveningCoefficients General lat = eveningCoefficients Abyad lat"
  by (simp add: eveningCoefficients_def)


section \<open>The result validator\<close>

lemma highLatitude_marker:
  "js_includes ''min) at high latitude - normal in winter'' ''at high latitude''"
  by simp

lemma highLatitude_not_critical:
  "\<not> isCriticalIssue [Lit label, Num x, Lit ''min) at high latitude - normal in winter'']"
  using highLatitude_marker by (simp add: isCriticalIssue_def msgIncludes_def)

lemma extreme_marker: "js_includes ''h) at latitude '' ''at latitude''"
  by simp

lemma extreme_not_critical:
  "\<not> isCriticalIssue [Lit ''Extreme day length ('', Num x, Lit ''h) at latitude '', Num y, Lit z]"
  using extreme_marker by (simp add: isCriticalIssue_def msgIncludes_def)

lemma ordering_critical:
  "isCriticalIssue [Lit ''Fajr time is not before sunrise'']"
  "isCriticalIssue [Lit ''Sunrise time is not before Dhuhr'']"
  "isCriticalIssue [Lit ''Dhuhr time is not before Asr'']"
  "isCriticalIssue [Lit ''Asr time is not before Maghrib'']"
  "isCriticalIssue [Lit ''Maghrib time is not before Isha'']"
  by (simp_all add: isCriticalIssue_def msgIncludes_def)

lemma gap_critical:
  "isCriticalIssue [Lit ''Fajr to sunrise gap is unusually large'']"
  "isCriticalIssue [Lit ''Maghrib to Isha gap is unusually large'']"
  by (simp_all add: isCriticalIssue_def msgIncludes_def)

lemma gapIssue_empty:
  "gapIssue (Some l) (Some e) thr high plain label = []
     \<longleftrightarrow> of_int (l - e) / (1000 * 60) \<le> thr"
  by (simp add: gapIssue_def Let_def)

lemma gapIssue_critical_empty:
  assumes "isCriticalIssue plain"
  shows "filter isCriticalIssue (gapIssue (Some l) (Some e) thr high plain label) = []
     \<longleftrightarrow> high \<or> of_int (l - e) / (1000 * 60) \<le> thr"
  using assms highLatitude_not_critical by (simp add: gapIssue_def Let_def)

lemma single_if_empty: "(if c then [m] else []) = [] \<longleftrightarrow> \<not> c"
  by simp

lemma filter_single_if_empty: "filter P (if c then [m] else []) = [] \<longleftrightarrow> \<not> (c \<and> P m)"
  by simp

text \<open>The issue lists of the three groups of checks, for valid dates.\<close>

lemma validate_issues_empty:
  assumes "fajr tms = Some f" "sunrise tms = Some sr" "dhuhr tms = Some dh"
    "asr tms = Some a" "maghrib tms = Some m" "isha tms = Some i"
  shows "vo_issues (validateCalculationResults tms ctx) = [] \<longleftrightarrow>
      (f < sr \<and> sr < dh \<and> dh < a \<and> a < m \<and> m < i)
    \<and> of_int (sr - f) / (1000 * 60)
        \<le> (if \<bar>latitude (coordinates ctx)\<bar> \<ge> 60 then 300
            else if \<bar>latitude (coordinates ctx)\<bar> \<ge> 48 then 240 else (180::real))
    \<and> of_int (i - m) / (1000 * 60)
        \<le> (if \<bar>latitude (coordinates ctx)\<bar> \<ge> 60 then 360
            else if \<bar>latitude (coordinates ctx)\<bar> \<ge> 48 then 300 else (240::real))
    \<and> (\<bar>latitude (coordinates ctx)\<bar> \<ge> 60 \<longrightarrow>
          2 \<le> of_int (m - sr) / (1000 * 60 * 60 :: real)
        \<and> of_int (m - sr) / (1000 * 60 * 60 :: real) \<le> 22)"
proof (cases "\<bar>latitude (coordinates ctx)\<bar> \<ge> 60")
  case True
  then show ?thesis
    using assms
    by (simp add: validateCalculationResults_def Let_def dateGe_def gapIssue_empty
        single_if_empty not_le not_less)
next
  case False
  then show ?thesis
    using assms
    by (simp add: validateCalculationResults_def Let_def dateGe_def gapIssue_empty
        single_if_empty not_le not_less)
qed

lemma validate_isValid:
  assumes "fajr tms = Some f" "sunrise tms = Some sr" "dhuhr tms = Some dh"
    "asr tms = Some a" "maghrib tms = Some m" "isha tms = Some i"
  shows "vo_isValid (validateCalculationResults tms ctx) \<longleftrightarrow>
      (f < sr \<and> sr < dh \<and> dh < a \<and> a < m \<and> m < i)
    \<and> (\<bar>latitude (coordinates ctx)\<bar> < 48 \<longrightarrow>
          of_int (sr - f) / (1000 * 60) \<le> (180::real)
        \<and> of_int (i - m) / (1000 * 60) \<le> (240::real))"
proof (cases "\<bar>latitude (coordinates ctx)\<bar> \<ge> 60")
  case True
  then show ?thesis
    using assms
    by (simp add: validateCalculationResults_def Let_def dateGe_def gapIssue_critical_empty
        gap_critical ordering_critical extreme_not_critical filter_single_if_empty
        not_le not_less)
next
  case False
  then show ?thesis
    using assms
    by (simp add: validateCalculationResults_def Let_def dateGe_def gapIssue_critical_empty
        gap_critical ordering_critical filter_single_if_empty not_le not_less)
qed

text \<open>
  Claim C7 (as amended).  For valid dates the validator checks the ordering
  \<open>fajr < sunrise < dhuhr < asr < maghrib < isha\<close>, flags a Fajr-to-sunrise gap larger than
  180/240/300 minutes and a Maghrib-to-Isha gap larger than 240/300/360 minutes at
  moderate (\<open>|\<phi>| < 48\<close>) / high (\<open>48 \<le> |\<phi>| < 60\<close>) / extreme (\<open>|\<phi>| \<ge> 60\<close>) latitude, and
  flags a day length (sunrise to maghrib) outside 2 to 22 hours when \<open>|\<phi>| \<ge> 60\<close>; there
  is no issue exactly when none of these checks fails.  The result is valid exactly when
  the ordering holds and, at moderate latitude, both gaps are within their thresholds:
  gap violations at high and extreme latitude and the day-length issue are warnings only.
\<close>

theorem validateCalculationResults_checks:
  assumes "fajr tms = Some f" "sunrise tms = Some sr" "dhuhr tms = Some dh"
    "asr tms = Some a" "maghrib tms = Some m" "isha tms = Some i"
  shows "(vo_issues (validateCalculationResults tms ctx) = [] \<longleftrightarrow>
        (f < sr \<and> sr < dh \<and> dh < a \<and> a < m \<and> m < i)
      \<and> of_int (sr - f) / (1000 * 60)
          \<le> (if \<bar>latitude (coordinates ctx)\<bar> \<ge> 60 then 300
              else if \<bar>latitude (coordinates ctx)\<bar> \<ge> 48 then 240 else (180::real))
      \<and> of_int (i - m) / (1000 * 60)
          \<le> (if \<bar>latitude (coordinates ctx)\<bar> \<ge> 60 then 360
              else if \<bar>latitude (coordinates ctx)\<bar> \<ge> 48 then 300 else (240::real))
      \<and> (\<bar>latitude (coordinates ctx)\<bar> \<ge> 60 \<longrightarrow>
            2 \<le> of_int (m - sr) / (1000 * 60 * 60 :: real)
          \<and> of_int (m - sr) / (1000 * 60 * 60 :: real) \<le> 22))
    \<and> (vo_isValid (validateCalculationResults tms ctx) \<longleftrightarrow>
        (f < sr \<and> sr < dh \<and> dh < a \<and> a < m \<and> m < i)
      \<and> (\<bar>latitude (coordinates ctx)\<bar> < 48 \<longrightarrow>
            of_int (sr - f) / (1000 * 60) \<le> (180::real)
          \<and> of_int (i - m) / (1000 * 60) \<le> (240::real)))"
  using validate_issues_empty[OF assms, of ctx] validate_isValid[OF assms, of ctx]
  by (rule conjI)

theorem validateCalculationResults_checks_witness:
  "\<not> vo_isValid (validateCalculationResults longDawn (contextAt 30))
   \<and> vo_isValid (validateCalculationResults longDawn (contextAt 50))
   \<and> vo_issues (validateCalculationResults longDawn (contextAt 50)) = []"
proof -
  have f: "fajr longDawn = Some 0" "sunrise longDawn = Some 12000000"
    "dhuhr longDawn = Some 30000000" "asr longDawn = Some 40000000"
    "maghrib longDawn = Some 50060000" "isha longDawn = Some 56000000"
    by (simp_all add: longDawn_def)
  have l: "latitude (coordinates (contextAt x)) = x" for x
    by (simp add: contextAt_def)
  show ?thesis
    using validateCalculationResults_checks[OF f, of "contextAt 30"]
      validateCalculationResults_checks[OF f, of "contextAt 50"]
    by (simp add: l)
qed

text \<open>
  The claim as written also has a day length outside 4 to 20 hours flagged at every
  latitude below 60.  It is not: at latitude 30 a day of three hours from sunrise to
  maghrib, in order and with small gaps, raises no issue.
\<close>

theorem validateCalculationResults_day_length_counterexample:
  "of_int (14400000 - 3600000) / (1000 * 60 * 60 :: real) < 4
   \<and> \<bar>latitude (coordinates (contextAt 30))\<bar> < 60
   \<and> validateCalculationResults shortDay (contextAt 30) = \<lparr>vo_isValid = True, vo_issues = []\<rparr>"
  by (simp add: validateCalculationResults_def Let_def shortDay_def contextAt_def dateGe_def
      gapIssue_def)


section \<open>Sunnah times\<close>

lemma seconds_half_minute: "getUTCSeconds t \<ge> 30 \<longleftrightarrow> t mod 60000 \<ge> 30000"
proof -
  have "t mod (1000 * 60) = 1000 * (t div 1000 mod 60) + t mod 1000"
    by (rule zmod_zmult2_eq) simp
  moreover have "0 \<le> t mod 1000" "t mod 1000 < 1000" by simp_all
  ultimately show ?thesis unfolding getUTCSeconds_def by simp linarith
qed

lemma half_minute_div:
  "((t::int) + 30000) div 60000 = (if t mod 60000 \<ge> 30000 then t div 60000 + 1 else t div 60000)"
proof -
  define q where "q = t div 60000"
  define r where "r = t mod 60000"
  have e: "t = 60000 * q + r" unfolding q_def r_def by simp
  have l: "0 \<le> r" and u: "r < 60000" unfolding r_def by simp_all
  show ?thesis
  proof (cases "r \<ge> 30000")
    case True
    have "(t + 30000) div 60000 = q + 1"
    proof (rule int_div_pos_eq[where r = "r - 30000"])
      show "t + 30000 = 60000 * (q + 1) + (r - 30000)" using e by (simp add: algebra_simps)
      show "0 \<le> r - 30000" using True by simp
      show "r - 30000 < 60000" using u by simp
    qed
    with True show ?thesis unfolding q_def r_def by simp
  next
    case False
    have "(t + 30000) div 60000 = q"
    proof (rule int_div_pos_eq[where r = "r + 30000"])
      show "t + 30000 = 60000 * q + (r + 30000)" using e by (simp add: algebra_simps)
      show "0 \<le> r + 30000" using l by simp
      show "r + 30000 < 60000" using False by simp
    qed
    with False show ?thesis unfolding q_def r_def by simp
  qed
qed

text \<open>
  In a time zone whose offset from UTC never changes and is a whole number of minutes,
  \<open>roundToNearestMinute\<close> is the rounding of the specification.
\<close>

lemma local_seconds:
  assumes "(c::int) mod 60000 = 0"
  shows "((t + c) div 1000) mod 60 \<ge> 30 \<longleftrightarrow> t mod 60000 \<ge> 30000"
proof -
  have "(t + c) mod 60000 = (t + c mod 60000) mod 60000"
    by (simp only: mod_add_right_eq)
  with assms have "(t + c) mod 60000 = t mod 60000"
    by simp
  with seconds_half_minute[of "t + c"] show ?thesis
    by (simp add: getUTCSeconds_def)
qed

lemma roundToNearestMinute_fixed_offset:
  assumes z: "\<And>x b. localTZA tz x b = c" and c: "c mod 60000 = 0"
  shows "roundToNearestMinute tz (Some t) = Some (spec_nearestMinute t)"
proof -
  have "(t + c) mod 60000 = (t + c mod 60000) mod 60000"
    by (simp only: mod_add_right_eq)
  with c have m: "(t + c) mod 60000 = t mod 60000"
    by simp
  have s: "setSeconds tz t 0 0 = t - t mod 60000"
    by (simp add: setSeconds_def LocalTime_def UTC_of_def Let_def z m)
  have n: "setMinutes tz r (getMinutes tz r + 1) = r + 60000" for r
    by (simp add: setMinutes_def getMinutes_def LocalTime_def UTC_of_def Let_def z
        algebra_simps)
  have g: "getSeconds tz t \<ge> 30 \<longleftrightarrow> t mod 60000 \<ge> 30000"
    using local_seconds[OF c, of t] by (simp add: getSeconds_def LocalTime_def z)
  have d: "t - t mod 60000 = 60000 * (t div 60000)"
    by (simp add: minus_mod_eq_mult_div)
  show ?thesis
    unfolding roundToNearestMinute_def spec_nearestMinute_def
    by (simp only: option.case Let_def s n g half_minute_div d) simp
qed

lemma roundToNearestMinute_fixed_offset_map:
  assumes "\<And>x b. localTZA tz x b = c" and "c mod 60000 = 0"
  shows "roundToNearestMinute tz d = map_option spec_nearestMinute d"
  using roundToNearestMinute_fixed_offset[OF assms]
  by (cases d) (simp_all add: roundToNearestMinute_def)

lemma dateAfter_whole: "dateAfter (Some t) (Some (of_int k)) = Some (t + k)"
proof -
  have "of_int t + of_int k = (of_int (t + k) :: real)" by simp
  then show ?thesis
    unfolding dateAfter_def by (simp only: newDate_of_int prod.case option.case)
qed

text \<open>
  In such a time zone, when today's and tomorrow's results are valid and the dates involved
  are valid Dates, the Sunnah derivation returns, with \<open>N\<close> tomorrow's Fajr minus today's
  Maghrib in milliseconds, the instants \<open>maghrib + N/3\<close>, \<open>maghrib + N/2\<close> and
  \<open>maghrib + N\<cdot>(2/3)\<close> (as Dates, so clipped to whole milliseconds), \<open>sunrise + 15 min\<close>
  and \<open>dhuhr \<minus> 15 min\<close>, each rounded to the nearest whole minute, 30 seconds going up.
\<close>

lemma sunnahTimesOf_fixed_offset:
  assumes z: "\<And>x b. localTZA tz x b = c" and c: "c mod 60000 = 0"
    and "cr_isValid todayResult" "cr_isValid tomorrowResult"
    and "maghrib (cr_times todayResult) = Some m" "fajr (cr_times tomorrowResult) = Some f"
    and "sunrise (cr_times todayResult) = Some sr" "dhuhr (cr_times todayResult) = Some dh"
  shows "sunnahTimesOf tz todayResult tomorrowResult =
     Inr \<lparr>middleOfNight = map_option spec_nearestMinute (newDate (of_int m + of_int (f - m) / 2)),
          lastThirdOfNight =
            map_option spec_nearestMinute (newDate (of_int m + of_int (f - m) * (2 / 3))),
          firstThirdOfNight =
            map_option spec_nearestMinute (newDate (of_int m + of_int (f - m) / 3)),
          duhaStart = Some (spec_nearestMinute (sr + 15 * 60 * 1000)),
          duhaEnd = Some (spec_nearestMinute (dh - 15 * 60 * 1000)),
          nightDuration = Some (Math_round (of_int (f - m) / (1000 * 60)))\<rparr>"
proof -
  note r = roundToNearestMinute_fixed_offset_map[OF z c]
  have ds: "dateAfter (Some sr) (Some 900000) = Some (sr + 900000)"
    using dateAfter_whole[of sr 900000] by simp
  have de: "dateAfter (Some dh) (Some (- 900000)) = Some (dh - 900000)"
    using dateAfter_whole[of dh "- 900000"] by simp
  have da: "dateAfter (Some m) (Some x) = newDate (of_int m + x)" for x
    by (simp add: dateAfter_def)
  show ?thesis
    using assms(3-)
    by (simp add: sunnahTimesOf_def Let_def r ds de da del: of_int_diff)
qed

lemma utcZone_sunnahTimes:
  "sunnahTimesOf utcZone autumnToday autumnTomorrow =
     Inr \<lparr>middleOfNight = Some 1730606400000, lastThirdOfNight = Some 1730613780000,
          firstThirdOfNight = Some 1730599020000, duhaStart = Some 1730547720000,
          duhaEnd = Some 1730564700000, nightDuration = Some 738\<rparr>"
proof -
  have z: "localTZA utcZone x b = 0" for x b by (simp add: utcZone_def)
  have v: "cr_isValid autumnToday" "cr_isValid autumnTomorrow"
    by (simp_all add: autumnToday_def autumnTomorrow_def)
  have t: "maghrib (cr_times autumnToday) = Some 1730584260000"
      "fajr (cr_times autumnTomorrow) = Some 1730628540000"
      "sunrise (cr_times autumnToday) = Some 1730546820000"
      "dhuhr (cr_times autumnToday) = Some 1730565600000"
    by (simp_all add: autumnToday_def autumnTomorrow_def)
  have n1: "newDate (of_int 1730584260000 + of_int (1730628540000 - 1730584260000) / 2)
      = Some 1730606400000"
    by (simp add: newDate_def)
  have n2: "newDate (of_int 1730584260000 + of_int (1730628540000 - 1730584260000) * (2 / 3))
      = Some 1730613780000"
    by (simp add: newDate_def)
  have n3: "newDate (of_int 1730584260000 + of_int (1730628540000 - 1730584260000) / 3)
      = Some 1730599020000"
    by (simp add: newDate_def)
  have r: "Math_round (of_int (1730628540000 - 1730584260000) / (1000 * 60)) = 738"
    by (simp add: Math_round_def)
  show ?thesis
    using sunnahTimesOf_fixed_offset[of utcZone 0, OF z _ v t]
    by (simp only: n1 n2 n3 r) (simp add: spec_nearestMinute_def)
qed

text \<open>
  Where the offset changes, the setters of local time do not give the nearest minute.  A time
  value in the hour after the clocks went back has a local time that occurs twice;
  \<open>setSeconds\<close> reads that local time as the earlier of the two instants.
\<close>

lemma newYork_local:
  "LocalTime newYork t = (if t < 1730613600000 then t - 14400000 else t - 18000000)"
  "UTC_of newYork t = (if t < 1730599200000 then t + 14400000 else t + 18000000)"
  by (simp_all add: LocalTime_def UTC_of_def newYork_def)

lemma newYork_round_1: "roundToNearestMinute newYork (Some 1730613780000) = Some 1730610180000"
  by (simp add: roundToNearestMinute_def setSeconds_def setMinutes_def getSeconds_def
      getMinutes_def newYork_local Let_def)

lemma newYork_round_2: "roundToNearestMinute newYork (Some 1730613800000) = Some 1730610180000"
  by (simp add: roundToNearestMinute_def setSeconds_def setMinutes_def getSeconds_def
      getMinutes_def newYork_local Let_def)

text \<open>
  Claim C8.  The Sunnah derivation does not return \<open>maghrib + N\<cdot>(2/3)\<close> rounded to the nearest
  minute in every time zone of the process.  In New York, for the night from 2 to 3 November
  2024 with Maghrib at 21:51 UTC and the next Fajr at 10:09 UTC, the last third of the night
  starts at 06:03:00 UTC, a whole minute; \<open>calculateSunnahTimes\<close> returns 05:03:00 UTC, one
  hour earlier, where the same results in the UTC time zone give 06:03:00 UTC.
  \<open>roundToNearestMinute\<close> alone sends 06:03:20 UTC to 05:03:00 UTC, and the nearest minute
  is 06:03:00 UTC.  The other four instants are returned as the claim says.
\<close>

theorem sunnahTimesOf_repeated_hour:
  "sunnahTimesOf newYork autumnToday autumnTomorrow =
     Inr \<lparr>middleOfNight = Some 1730606400000, lastThirdOfNight = Some 1730610180000,
          firstThirdOfNight = Some 1730599020000, duhaStart = Some 1730547720000,
          duhaEnd = Some 1730564700000, nightDuration = Some 738\<rparr>
   \<and> sunnahTimesOf utcZone autumnToday autumnTomorrow =
     Inr \<lparr>middleOfNight = Some 1730606400000, lastThirdOfNight = Some 1730613780000,
          firstThirdOfNight = Some 1730599020000, duhaStart = Some 1730547720000,
          duhaEnd = Some 1730564700000, nightDuration = Some 738\<rparr>
   \<and> maghrib (cr_times autumnToday) = Some 1730584260000
   \<and> fajr (cr_times autumnTomorrow) = Some 1730628540000
   \<and> newDate (of_int 1730584260000 + of_int (1730628540000 - 1730584260000) * (2 / 3))
       = Some 1730613780000
   \<and> spec_nearestMinute 1730613780000 = 1730613780000
   \<and> roundToNearestMinute newYork (Some 1730613800000) = Some 1730610180000
   \<and> spec_nearestMinute 1730613800000 = 1730613780000"
proof -
  have n: "dateAfter (Some 1730584260000) (Some 22140000) = Some 1730606400000"
      "dateAfter (Some 1730584260000) (Some 29520000) = Some 1730613780000"
      "dateAfter (Some 1730584260000) (Some 14760000) = Some 1730599020000"
      "dateAfter (Some 1730546820000) (Some 900000) = Some 1730547720000"
      "dateAfter (Some 1730565600000) (Some (- 900000)) = Some 1730564700000"
    by (simp_all add: dateAfter_def newDate_def)
  have r: "Math_round 738 = 738"
    by (simp add: Math_round_def)
  have b: "roundToNearestMinute newYork (Some 1730606400000) = Some 1730606400000"
      "roundToNearestMinute newYork (Some 1730599020000) = Some 1730599020000"
      "roundToNearestMinute newYork (Some 1730547720000) = Some 1730547720000"
      "roundToNearestMinute newYork (Some 1730564700000) = Some 1730564700000"
    by (simp_all add: roundToNearestMinute_def setSeconds_def setMinutes_def getSeconds_def
        getMinutes_def newYork_local Let_def)
  have a: "sunnahTimesOf newYork autumnToday autumnTomorrow =
     Inr \<lparr>middleOfNight = Some 1730606400000, lastThirdOfNight = Some 1730610180000,
          firstThirdOfNight = Some 1730599020000, duhaStart = Some 1730547720000,
          duhaEnd = Some 1730564700000, nightDuration = Some 738\<rparr>"
    unfolding sunnahTimesOf_def autumnToday_def autumnTomorrow_def
    by (simp add: Let_def n r b newYork_round_1)
  have c: "newDate (of_int 1730584260000 + of_int (1730628540000 - 1730584260000) * (2 / 3))
       = Some 1730613780000"
    by (simp add: newDate_def)
  show ?thesis
    using a utcZone_sunnahTimes c newYork_round_2
    by (simp add: spec_nearestMinute_def autumnToday_def autumnTomorrow_def)
qed


section \<open>From decimal hours to a Date\<close>

lemma wrapNegativeHours_invariant:
  "wrapNegativeHours h d = (h', d') \<Longrightarrow> h' + 24 * of_int d' = h + 24 * of_int d"
proof (induction h d rule: wrapNegativeHours.induct)
  case (1 adjustedHours adjustedDay)
  show ?case
  proof (cases "adjustedHours < 0")
    case True
    with "1.prems" have "wrapNegativeHours (adjustedHours + 24) (adjustedDay - 1) = (h', d')"
      by (simp add: wrapNegativeHours.simps[of adjustedHours adjustedDay])
    from "1.IH"[OF True this] show ?thesis by simp
  next
    case False
    with "1.prems" show ?thesis
      by (simp add: wrapNegativeHours.simps[of adjustedHours adjustedDay])
  qed
qed

lemma wrapLargeHours_invariant:
  "wrapLargeHours h d = (h', d') \<Longrightarrow> h' + 24 * of_int d' = h + 24 * of_int d"
proof (induction h d rule: wrapLargeHours.induct)
  case (1 adjustedHours adjustedDay)
  show ?case
  proof (cases "adjustedHours \<ge> 24")
    case True
    with "1.prems" have "wrapLargeHours (adjustedHours - 24) (adjustedDay + 1) = (h', d')"
      by (simp add: wrapLargeHours.simps[of adjustedHours adjustedDay])
    from "1.IH"[OF True this] show ?thesis by simp
  next
    case False
    with "1.prems" show ?thesis
      by (simp add: wrapLargeHours.simps[of adjustedHours adjustedDay])
  qed
qed

text \<open>Hours, minutes and seconds of a number of hours add up to its whole seconds.\<close>

lemma hms_floor:
  "\<lfloor>x\<rfloor> * 3600 + \<lfloor>frac x * 60\<rfloor> * 60 + \<lfloor>frac (frac x * 60) * 60\<rfloor> = \<lfloor>x * 3600 :: real\<rfloor>"
proof -
  define n where "n = \<lfloor>x\<rfloor>"
  define y where "y = frac x * 60"
  define k where "k = \<lfloor>y\<rfloor>"
  define z where "z = frac y * 60"
  have x: "x = of_int n + frac x" unfolding n_def frac_def by simp
  have y: "y = of_int k + frac y" unfolding k_def frac_def by simp
  have e: "x * 3600 = of_int (n * 3600 + k * 60) + z"
  proof -
    have "x * 3600 = of_int n * 3600 + y * 60" using x unfolding y_def by linarith
    also have "\<dots> = of_int n * 3600 + (of_int k + frac y) * 60" using y by simp
    also have "\<dots> = of_int (n * 3600 + k * 60) + z" unfolding z_def by simp
    finally show ?thesis .
  qed
  have "\<lfloor>x * 3600\<rfloor> = \<lfloor>of_int (n * 3600 + k * 60) + z\<rfloor>" by (simp only: e)
  also have "\<dots> = (n * 3600 + k * 60) + \<lfloor>z\<rfloor>" by (rule int_add_floor[symmetric])
  finally show ?thesis unfolding n_def k_def z_def y_def by simp
qed

lemma createUTCDateFromHours_floor:
  "createUTCDateFromHours (Some h) d = Some (utcMidnight d + \<lfloor>h * 3600\<rfloor> * 1000)"
proof -
  obtain h1 d1 where w1: "wrapNegativeHours h 0 = (h1, d1)" by (cases "wrapNegativeHours h 0")
  obtain h2 d2 where w2: "wrapLargeHours h1 d1 = (h2, d2)" by (cases "wrapLargeHours h1 d1")
  from wrapNegativeHours_invariant[OF w1] wrapLargeHours_invariant[OF w2]
  have "h = h2 + 24 * of_int d2" by simp
  then have e: "h * 3600 = h2 * 3600 + of_int (d2 * 86400)" by simp
  have "\<lfloor>h * 3600\<rfloor> = \<lfloor>h2 * 3600 + of_int (d2 * 86400)\<rfloor>" by (simp only: e)
  also have "\<dots> = \<lfloor>h2 * 3600\<rfloor> + d2 * 86400" by (rule floor_add_int[symmetric])
  finally have f: "\<lfloor>h * 3600\<rfloor> = \<lfloor>h2 * 3600\<rfloor> + d2 * 86400" .
  have g: "\<lfloor>h2\<rfloor> * 3600 + \<lfloor>frac h2 * 60\<rfloor> * 60 + \<lfloor>frac (frac h2 * 60) * 60\<rfloor> = \<lfloor>h2 * 3600\<rfloor>"
    by (rule hms_floor)
  define A where "A = \<lfloor>h2\<rfloor>"
  define B where "B = \<lfloor>frac h2 * 60\<rfloor>"
  define C where "C = \<lfloor>frac (frac h2 * 60) * 60\<rfloor>"
  define F where "F = \<lfloor>h * 3600\<rfloor>"
  from f g have "d2 * 86400000 + A * 3600000 + B * 60000 + C * 1000 = F * 1000"
    unfolding A_def B_def C_def F_def by linarith
  then have "utcMidnight d + d2 * 86400000 + A * 3600000 + B * 60000 + C * 1000
      = utcMidnight d + F * 1000" by linarith
  then have "utcMidnight d + d2 * 86400000 + \<lfloor>h2\<rfloor> * 3600000 + \<lfloor>frac h2 * 60\<rfloor> * 60000
      + \<lfloor>frac (frac h2 * 60) * 60\<rfloor> * 1000 = utcMidnight d + \<lfloor>h * 3600\<rfloor> * 1000"
    unfolding A_def B_def C_def F_def .
  then show ?thesis
    by (simp only: createUTCDateFromHours_def option.case w1 prod.case w2 Let_def)
qed

section \<open>Rounding to the minute\<close>

lemma spec_nearestMinute_shift:
  "spec_nearestMinute (t + 60000 * k) = spec_nearestMinute t + 60000 * k"
proof -
  have "(t + 30000 + k * 60000) div 60000 = (t + 30000) div 60000 + k"
    by (rule div_mult_self1[of 60000 "t + 30000" k, simplified add.commute mult.commute] |
        simp)+
  then show ?thesis
    by (simp add: spec_nearestMinute_def algebra_simps)
qed

lemma roundedMinute_Nearest:
  "roundedMinute (Some t) Nearest = Some (spec_nearestMinute t + t mod 1000)"
proof -
  define s where "s = getUTCSeconds t"
  have m: "t mod (1000 * 60) = 1000 * (t div 1000 mod 60) + t mod 1000"
    by (rule zmod_zmult2_eq) simp
  then have m': "t mod 60000 = 1000 * s + t mod 1000"
    unfolding s_def getUTCSeconds_def by simp
  have d: "t - t mod 60000 = 60000 * (t div 60000)"
    by (simp add: minus_mod_eq_mult_div)
  have sp: "spec_nearestMinute t =
      (if s \<ge> 30 then t - t mod 60000 + 60000 else t - t mod 60000)"
    unfolding spec_nearestMinute_def s_def
    by (simp only: half_minute_div seconds_half_minute d) simp
  have r: "roundedMinute (Some t) Nearest =
      Some (t + (if s \<ge> 30 then 60 - s else -1 * s) * 1000)"
    unfolding roundedMinute_def s_def
    by (simp only: option.case Let_def RoundingMode.case addSeconds_whole)
  show ?thesis
  proof (cases "s \<ge> 30")
    case True
    with r sp m' show ?thesis by simp
  next
    case False
    with r sp m' show ?thesis by simp
  qed
qed

lemma roundedMinute_whole_second:
  "roundedMinute (Some (k * 1000)) Nearest = Some (spec_nearestMinute (k * 1000))"
  by (simp add: roundedMinute_Nearest)


section \<open>Whole seconds, and interval parameters\<close>

lemma createUTCDateFromHours_seconds:
  "createUTCDateFromHours (Some h) d = Some (1000 * (86400 * (d div 86400000) + \<lfloor>h * 3600\<rfloor>))"
proof -
  have "d - d mod 86400000 = 86400000 * (d div 86400000)"
    by (simp add: minus_mod_eq_mult_div)
  then show ?thesis
    by (simp add: createUTCDateFromHours_floor utcMidnight_def)
qed




section \<open>Moonsighting at high latitude\<close>





















section \<open>Method adjustments, rounding, user adjustments\<close>

lemma applyUserAdjustments_map_of:
  assumes "distinct (map fst adj)" and "p \<noteq> Sunrise"
  shows "getField p (applyUserAdjustments t adj)
     = (case map_of adj p of None \<Rightarrow> getField p t | Some u \<Rightarrow> addMinutes (getField p t) u)"
proof (cases "map_of adj p")
  case None
  then have "p \<notin> fst ` set adj" by (simp add: map_of_eq_None_iff)
  then show ?thesis using None by (simp add: applyUserAdjustments_absent)
next
  case (Some u)
  then have "(p, u) \<in> set adj" by (rule map_of_SomeD)
  then show ?thesis
    using Some assms by (simp add: applyUserAdjustments_present)
qed

lemma engine_field:
  "getField p (ir_value (calculatePrecisePrayerTimes rt ctx))
     = roundedMinute
         (case mp_adjustments (methodParams ctx) of
            None \<Rightarrow> getField p (currentTimes rt ctx)
          | Some a \<Rightarrow> adjustOne a p (getField p (currentTimes rt ctx))) Nearest"
  by (cases p; cases "mp_adjustments (methodParams ctx)")
     (simp_all add: calculatePrecisePrayerTimes_def Let_def applyMethodAdjustments_def
        roundTimes_def)

lemma highLatitude_keeps:
  "dhuhr (applyHighLatitudeAdjustments rt t ctx cfg) = dhuhr t"
  "asr (applyHighLatitudeAdjustments rt t ctx cfg) = asr t"
  "maghrib (applyHighLatitudeAdjustments rt t ctx cfg) = maghrib t"
  by (simp_all add: applyHighLatitudeAdjustments_def getSafePrayerTimes_def Let_def)

lemma highLatitude_keeps_fajr:
  "fajr t = Some y \<Longrightarrow> fajr (applyHighLatitudeAdjustments rt t ctx cfg) = Some y"
  by (simp add: applyHighLatitudeAdjustments_def getSafePrayerTimes_def Let_def)

lemma highLatitude_keeps_isha:
  "isha t = Some y \<Longrightarrow> isha (applyHighLatitudeAdjustments rt t ctx cfg) = Some y"
  by (simp add: applyHighLatitudeAdjustments_def getSafePrayerTimes_def Let_def)

lemma before_plain:
  assumes "p = Dhuhr \<or> p = Maghrib"
  shows "getField p (timesBeforeUserAdjustments rt opts cfg ctx pr) = getField p (ir_value pr)"
  using assms
  by (auto simp: timesBeforeUserAdjustments_def Let_def highLatitude_keeps)

lemma before_asr:
  assumes "cfg_asrSchool cfg \<noteq> Some Hanafi"
  shows "getField Asr (timesBeforeUserAdjustments rt opts cfg ctx pr) = getField Asr (ir_value pr)"
  using assms highLatitude_keeps(2)[of rt "ir_value pr" ctx cfg]
  by (simp add: timesBeforeUserAdjustments_def Let_def)

lemma before_fajr:
  assumes "fajr (ir_value pr) \<noteq> None"
  shows "getField Fajr (timesBeforeUserAdjustments rt opts cfg ctx pr) = getField Fajr (ir_value pr)"
proof -
  from assms obtain y where y: "fajr (ir_value pr) = Some y" by blast
  from highLatitude_keeps_fajr[OF y, of rt ctx cfg] y show ?thesis
    by (simp add: timesBeforeUserAdjustments_def Let_def)
qed

lemma before_isha:
  assumes "isha (ir_value pr) \<noteq> None"
  shows "getField Isha (timesBeforeUserAdjustments rt opts cfg ctx pr) = getField Isha (ir_value pr)"
proof -
  from assms obtain y where y: "isha (ir_value pr) = Some y" by blast
  from highLatitude_keeps_isha[OF y, of rt ctx cfg] y show ?thesis
    by (simp add: timesBeforeUserAdjustments_def Let_def)
qed

lemma finish_field:
  assumes "cfg_adjustments cfg = Some adj" and "applyAdjustments opts"
    and "distinct (map fst adj)" and "p \<noteq> Sunrise"
  shows "getField p (cr_times (finishCalculation rt opts cfg ctx w pr))
     = (case map_of adj p of
          None \<Rightarrow> getField p (timesBeforeUserAdjustments rt opts cfg ctx pr)
        | Some u \<Rightarrow> addMinutes (getField p (timesBeforeUserAdjustments rt opts cfg ctx pr)) u)"
proof -
  have c: "getField p (convertTimesToTimezone t tz) = getField p t" for t tz
    by (cases p) (simp_all add: convertTimesToTimezone_def convertToTimezone_def)
  show ?thesis
    using assms(1,2) applyUserAdjustments_map_of[OF assms(3,4)]
    by (simp add: finishCalculation_def Let_def c split: option.splits)
qed

lemma roundedMinute_valid: "d \<noteq> None \<Longrightarrow> roundedMinute d Nearest \<noteq> None"
  by (cases d) (simp_all add: roundedMinute_Nearest)

lemma adjustOne_valid: "d \<noteq> None \<Longrightarrow> adjustOne a p d \<noteq> None"
  by (cases d) (simp_all add: adjustOne_def addMinutes_def newDate_def split: option.splits)

lemma engine_valid:
  assumes "getField p (currentTimes rt ctx) \<noteq> None"
  shows "getField p (ir_value (calculatePrecisePrayerTimes rt ctx)) \<noteq> None"
  unfolding engine_field
  using assms by (cases "mp_adjustments (methodParams ctx)")
    (simp_all add: roundedMinute_valid adjustOne_valid)

text \<open>
  Claim C1 (as amended).  The method's built-in adjustments are added, in minutes, to the
  computed instants and each instant is then rounded to the nearest whole minute; the
  user adjustments are added afterwards, to the rounded instants, and the result is not
  rounded again.  So each returned \<open>dhuhr\<close> and \<open>maghrib\<close>, each \<open>asr\<close> of the Standard
  school and each \<open>fajr\<close> and \<open>isha\<close> whose computed instant is a valid Date is the user
  adjustment added to the rounding of the method adjustment added to the computed instant.
\<close>

theorem adjustments_around_rounding:
  assumes "cfg_adjustments cfg = Some adj" and "applyAdjustments opts"
    and "distinct (map fst adj)"
  shows "\<forall>p. (p = Dhuhr \<or> p = Maghrib \<or> (p = Asr \<and> cfg_asrSchool cfg \<noteq> Some Hanafi)
            \<or> (p = Fajr \<and> fajr (currentTimes rt ctx) \<noteq> None)
            \<or> (p = Isha \<and> isha (currentTimes rt ctx) \<noteq> None)) \<longrightarrow>
      getField p (cr_times (finishCalculation rt opts cfg ctx w (calculatePrecisePrayerTimes rt ctx)))
        = (let computed = getField p (currentTimes rt ctx);
               rounded = roundedMinute
                 (case mp_adjustments (methodParams ctx) of
                    None \<Rightarrow> computed | Some a \<Rightarrow> adjustOne a p computed) Nearest
           in case map_of adj p of None \<Rightarrow> rounded | Some u \<Rightarrow> addMinutes rounded u)"
proof (intro allI impI)
  fix p
  assume h: "p = Dhuhr \<or> p = Maghrib \<or> (p = Asr \<and> cfg_asrSchool cfg \<noteq> Some Hanafi)
            \<or> (p = Fajr \<and> fajr (currentTimes rt ctx) \<noteq> None)
            \<or> (p = Isha \<and> isha (currentTimes rt ctx) \<noteq> None)"
  then have ns: "p \<noteq> Sunrise" by auto
  let ?pr = "calculatePrecisePrayerTimes rt ctx"
  have b: "getField p (timesBeforeUserAdjustments rt opts cfg ctx ?pr) = getField p (ir_value ?pr)"
  proof -
    from h consider "p = Dhuhr \<or> p = Maghrib" | "p = Asr \<and> cfg_asrSchool cfg \<noteq> Some Hanafi"
      | "p = Fajr \<and> fajr (currentTimes rt ctx) \<noteq> None"
      | "p = Isha \<and> isha (currentTimes rt ctx) \<noteq> None" by blast
    then show ?thesis
    proof cases
      case 1 then show ?thesis by (rule before_plain)
    next
      case 2 then show ?thesis using before_asr by blast
    next
      case 3
      then have "getField Fajr (currentTimes rt ctx) \<noteq> None" by simp
      from engine_valid[OF this] have "fajr (ir_value ?pr) \<noteq> None" by simp
      from before_fajr[OF this] 3 show ?thesis by blast
    next
      case 4
      then have "getField Isha (currentTimes rt ctx) \<noteq> None" by simp
      from engine_valid[OF this] have "isha (ir_value ?pr) \<noteq> None" by simp
      from before_isha[OF this] 4 show ?thesis by blast
    qed
  qed
  show "getField p (cr_times (finishCalculation rt opts cfg ctx w ?pr))
        = (let computed = getField p (currentTimes rt ctx);
               rounded = roundedMinute
                 (case mp_adjustments (methodParams ctx) of
                    None \<Rightarrow> computed | Some a \<Rightarrow> adjustOne a p computed) Nearest
           in case map_of adj p of None \<Rightarrow> rounded | Some u \<Rightarrow> addMinutes rounded u)"
    unfolding finish_field[OF assms ns] b engine_field Let_def ..
qed

lemma winter_dhuhr:
  "dhuhr (currentTimes winterRuntime mwlContext) = Some 1703160009000"
proof -
  have "createUTCDateFromHours (Some (86419 / 7200)) 1703116800000 = Some 1703160009000"
    by (simp add: createUTCDateFromHours_seconds)
  then show ?thesis
    by (simp add: currentTimes_def Let_def mwlContext_def createCalculationContext_def
        winterRuntime_def winterSolarTime_def winterDate_def)
qed

lemma mwl_adjustments:
  "mp_adjustments (methodParams mwlContext) = Some (map_of [(Dhuhr, 1)])"
  by (simp add: mwlContext_def createCalculationContext_def adjustmentsOf_def)

lemma round_dhuhr:
  "roundedMinute (Some 1703160069000) Nearest = Some 1703160060000"
  "roundedMinute (Some 1703160099000) Nearest = Some 1703160120000"
  by (simp_all add: roundedMinute_def getUTCSeconds_def addSeconds_whole[of _ "- 9", simplified]
      addSeconds_whole[of _ 21, simplified])

lemma add_dhuhr:
  "addMinutes (Some 1703160009000) 1 = Some 1703160069000"
  "addMinutes (Some 1703160060000) (1 / 2) = Some 1703160090000"
  "addMinutes (Some 1703160069000) (1 / 2) = Some 1703160099000"
  using addMinutes_whole[of 1 60000 1703160009000]
    addMinutes_whole[of "1 / 2" 30000 1703160060000]
    addMinutes_whole[of "1 / 2" 30000 1703160069000]
  by simp_all

theorem adjustments_around_rounding_witness:
  "cfg_adjustments halfMinuteConfig = Some [(Dhuhr, 1 / 2)]
   \<and> applyAdjustments DEFAULT_OPTIONS
   \<and> distinct (map fst [(Dhuhr, 1 / 2 :: real)])
   \<and> dhuhr (cr_times (finishCalculation winterRuntime DEFAULT_OPTIONS halfMinuteConfig mwlContext []
        (calculatePrecisePrayerTimes winterRuntime mwlContext))) = Some 1703160090000"
proof -
  have a: "cfg_adjustments halfMinuteConfig = Some [(Dhuhr, 1 / 2)]"
    by (simp add: halfMinuteConfig_def configOf_def)
  have b: "applyAdjustments DEFAULT_OPTIONS" by (simp add: DEFAULT_OPTIONS_def)
  have c: "distinct (map fst [(Dhuhr, 1 / 2 :: real)])" by simp
  from adjustments_around_rounding[OF a b c, of winterRuntime mwlContext "[]"]
  have "getField Dhuhr (cr_times (finishCalculation winterRuntime DEFAULT_OPTIONS halfMinuteConfig
        mwlContext [] (calculatePrecisePrayerTimes winterRuntime mwlContext)))
      = (let computed = getField Dhuhr (currentTimes winterRuntime mwlContext);
             rounded = roundedMinute
               (case mp_adjustments (methodParams mwlContext) of
                  None \<Rightarrow> computed | Some a \<Rightarrow> adjustOne a Dhuhr computed) Nearest
         in case map_of [(Dhuhr, 1 / 2)] Dhuhr of None \<Rightarrow> rounded
            | Some u \<Rightarrow> addMinutes rounded u)"
    by blast
  then have "dhuhr (cr_times (finishCalculation winterRuntime DEFAULT_OPTIONS halfMinuteConfig
        mwlContext [] (calculatePrecisePrayerTimes winterRuntime mwlContext)))
      = Some 1703160090000"
    by (simp add: winter_dhuhr mwl_adjustments adjustOne_def add_dhuhr round_dhuhr)
  with a b c show ?thesis by blast
qed

text \<open>
  The claim as written rounds after both adjustments.  With the MWL method (Dhuhr plus one
  minute), a user adjustment of half a minute for Dhuhr and a transit at 12:00:09, the
  returned Dhuhr is 12:01:30: the rounding of 12:01:09 plus 30 seconds, not the rounding
  12:02:00 of 12:01:39, and not a whole minute.
\<close>

lemma halfMinute_try:
  "calculatePrayerTimes_try winterRuntime acceptingCollaborators halfMinuteConfig winterDate
     DEFAULT_OPTIONS
   = Inr (finishCalculation winterRuntime DEFAULT_OPTIONS halfMinuteConfig mwlContext []
        (calculatePrecisePrayerTimes winterRuntime mwlContext))"
proof -
  have s: "sanitizeConfig halfMinuteConfig = halfMinuteConfig"
    by (simp add: sanitizeConfig_def halfMinuteConfig_def configOf_def)
  have p: "parseCoordinates (cfg_location halfMinuteConfig) = Inr \<lparr>latitude = 30, longitude = 0\<rparr>"
    by (simp add: parseCoordinates_def halfMinuteConfig_def configOf_def isValidLatitude_def
        isValidLongitude_def)
  have m: "getMethodParams MWL
      = Inr ((standardMethod 18 (Angle 17))\<lparr>mp_adjustments := adjustmentsOf [(Dhuhr, 1)]\<rparr>)"
    by (simp add: getMethodParams_def)
  have o: "applyParameterOverrides mp halfMinuteConfig = mp" for mp
    by (simp add: applyParameterOverrides_def halfMinuteConfig_def configOf_def)
  have f: "cfg_method halfMinuteConfig = MWL" "cfg_elevation halfMinuteConfig = None"
    "cfg_highLatitudeRule halfMinuteConfig = None" "cfg_iterations halfMinuteConfig = None"
    by (simp_all add: halfMinuteConfig_def configOf_def)
  show ?thesis
    by (simp add: calculatePrayerTimes_try_def s p m o f Let_def acceptingCollaborators_def
        mwlContext_def)
qed

theorem rounding_after_both_counterexample:
  "dhuhr (currentTimes winterRuntime mwlContext) = Some 1703160009000
   \<and> dhuhr (cr_times (calculatePrayerTimes winterRuntime acceptingCollaborators halfMinuteConfig
        winterDate DEFAULT_OPTIONS)) = Some 1703160090000
   \<and> roundedMinute (addMinutes (addMinutes (Some 1703160009000) 1) (1 / 2)) Nearest
       = Some 1703160120000
   \<and> getUTCSeconds 1703160090000 = 30"
proof -
  have a: "cfg_adjustments halfMinuteConfig = Some [(Dhuhr, 1 / 2)]"
    by (simp add: halfMinuteConfig_def configOf_def)
  have b: "applyAdjustments DEFAULT_OPTIONS" by (simp add: DEFAULT_OPTIONS_def)
  have c: "distinct (map fst [(Dhuhr, 1 / 2 :: real)])" by simp
  have d: "Dhuhr \<noteq> Sunrise" by simp
  have e: "getField Dhuhr (timesBeforeUserAdjustments winterRuntime DEFAULT_OPTIONS
        halfMinuteConfig mwlContext (calculatePrecisePrayerTimes winterRuntime mwlContext))
      = getField Dhuhr (ir_value (calculatePrecisePrayerTimes winterRuntime mwlContext))"
    by (rule before_plain) simp
  have "getField Dhuhr (cr_times (finishCalculation winterRuntime DEFAULT_OPTIONS halfMinuteConfig
        mwlContext [] (calculatePrecisePrayerTimes winterRuntime mwlContext)))
      = Some 1703160090000"
    unfolding finish_field[OF a b c d] e engine_field
    by (simp add: winter_dhuhr mwl_adjustments adjustOne_def add_dhuhr round_dhuhr)
  then have r: "dhuhr (cr_times (calculatePrayerTimes winterRuntime acceptingCollaborators
        halfMinuteConfig winterDate DEFAULT_OPTIONS)) = Some 1703160090000"
    by (simp add: calculatePrayerTimes_def halfMinute_try)
  have s: "getUTCSeconds 1703160090000 = 30" by (simp add: getUTCSeconds_def)
  from winter_dhuhr r s show ?thesis
    by (simp add: add_dhuhr round_dhuhr)
qed

section \<open>Interval Isha\<close>










section \<open>Errors of the API and of the engine\<close>





























end
